theory Spec2Isabelle
  imports Complex_Main "HOL-Library.List_Lexorder" "HOL-Library.Char_ord"
begin

section \<open>Strings\<close>

text \<open>
  Strings are values of \<^typ>\<open>string\<close>. The string functions of the platform that the
  components call are written out here for ASCII text only. On a string of ASCII
  characters \<open>toLowerCase\<close> maps the letters \<open>A\<close> to \<open>Z\<close> to \<open>a\<close> to \<open>z\<close>, character by
  character, and leaves the rest as it is; on other text the platform's function also
  lower-cases letters outside ASCII and depends on the neighbouring characters, which the
  definition below does not follow. Every statement about \<open>toLowerCase\<close> is therefore
  made for ASCII strings (\<open>is_ascii\<close>). \<open>trim\<close> removes the ASCII white space
  characters at both ends.
\<close>

definition is_ascii :: "string \<Rightarrow> bool" where
  "is_ascii s = list_all (\<lambda>c. (of_char c :: nat) < 128) s"

definition toLower_char :: "char \<Rightarrow> char" where
  "toLower_char c =
     (let n = of_char c :: nat in if 65 \<le> n \<and> n \<le> 90 then char_of (n + 32) else c)"

definition toLowerCase :: "string \<Rightarrow> string" where
  "toLowerCase s = map toLower_char s"

definition startsWith :: "string \<Rightarrow> string \<Rightarrow> bool" where
  "startsWith s p = (take (length p) s = p)"

definition isSpace :: "char \<Rightarrow> bool" where
  "isSpace c = (let n = of_char c :: nat in (9 \<le> n \<and> n \<le> 13) \<or> n = 32)"

definition trim :: "string \<Rightarrow> string" where
  "trim s = rev (dropWhile isSpace (rev (dropWhile isSpace s)))"

text \<open>\<open>s.split(sep)\<close> for a separator of one character: the empty string gives one empty
  segment, and \<open>n\<close> separators give \<open>n + 1\<close> segments.\<close>

fun split :: "char \<Rightarrow> string \<Rightarrow> string list" where
  "split sep [] = [[]]"
| "split sep (c # cs) =
     (if c = sep then [] # split sep cs
      else (c # hd (split sep cs)) # tl (split sep cs))"

text \<open>\<open>xs.join(sep)\<close>.\<close>

fun join :: "string \<Rightarrow> string list \<Rightarrow> string" where
  "join sep [] = []"
| "join sep [x] = x"
| "join sep (x # y # ys) = x @ sep @ join sep (y # ys)"

text \<open>\<open>encodeURIComponent\<close>: letters, digits and \<open>- _ . ! ~ * ' ( )\<close> stay, every other
  byte becomes \<open>%XX\<close> in upper-case hexadecimal.\<close>

definition unreserved :: "char \<Rightarrow> bool" where
  "unreserved c =
     (let n = of_char c :: nat in
        (65 \<le> n \<and> n \<le> 90) \<or> (97 \<le> n \<and> n \<le> 122) \<or> (48 \<le> n \<and> n \<le> 57)
        \<or> c \<in> set ''-_.!~*'()'')"

definition hex_digit :: "nat \<Rightarrow> char" where
  "hex_digit n = ''0123456789ABCDEF'' ! (n mod 16)"

definition percent_encode :: "char \<Rightarrow> string" where
  "percent_encode c =
     (if unreserved c then [c]
      else [CHR ''%'', hex_digit (of_char c div 16), hex_digit (of_char c mod 16)])"

definition encodeURIComponent :: "string \<Rightarrow> string" where
  "encodeURIComponent s = concat (map percent_encode s)"

text \<open>The decimal notation of an integer, as a template literal writes a whole number.\<close>

definition digit_char :: "nat \<Rightarrow> char" where
  "digit_char n = ''0123456789'' ! (n mod 10)"

fun string_of_nat :: "nat \<Rightarrow> string" where
  "string_of_nat n =
     (if n < 10 then [digit_char n] else string_of_nat (n div 10) @ [digit_char (n mod 10)])"

definition string_of_int :: "int \<Rightarrow> string" where
  "string_of_int i = (if i < 0 then CHR ''-'' # string_of_nat (nat (- i)) else string_of_nat (nat i))"

definition string_of_bool :: "bool \<Rightarrow> string" where
  "string_of_bool b = (if b then ''true'' else ''false'')"

section \<open>JavaScript values and exceptions\<close>

text \<open>
  What \<open>response.json()\<close> and \<open>JSON.parse\<close> return has the static type \<open>any\<close>: a value of
  \<open>jsval\<close>. \<open>Undefined\<close> is what reading an absent property gives. Numbers are the
  finite numbers a JSON text can denote.
\<close>

datatype jsval =
    Undefined
  | Null
  | Bool bool
  | Num rat
  | Str string
  | Arr "jsval list"
  | Obj "(string \<times> jsval) list"

datatype exn = TypeError | SyntaxError

text \<open>Truthiness, as \<open>||\<close>, \<open>&&\<close> and \<open>if\<close> test it.\<close>

fun truthy :: "jsval \<Rightarrow> bool" where
  "truthy Undefined = False"
| "truthy Null = False"
| "truthy (Bool b) = b"
| "truthy (Num n) = (n \<noteq> 0)"
| "truthy (Str s) = (s \<noteq> [])"
| "truthy (Arr xs) = True"
| "truthy (Obj kvs) = True"

text \<open>\<open>a || b\<close>.\<close>

definition js_or :: "jsval \<Rightarrow> jsval \<Rightarrow> jsval" where
  "js_or a b = (if truthy a then a else b)"

text \<open>
  \<open>v.k\<close> for a property name \<open>k\<close> that no prototype defines (the names read from
  responses are \<open>bots\<close>, \<open>queue_size\<close>, \<open>transfers\<close>, \<open>results\<close>, \<open>file_name\<close>,
  \<open>size_str\<close>, \<open>bot\<close>, \<open>server\<close>): a \<open>TypeError\<close> on \<open>undefined\<close> and \<open>null\<close>, the
  stored value on an object that has the key, \<open>undefined\<close> otherwise.
\<close>

fun get_prop :: "jsval \<Rightarrow> string \<Rightarrow> exn + jsval" where
  "get_prop Undefined k = Inl TypeError"
| "get_prop Null k = Inl TypeError"
| "get_prop (Obj kvs) k = Inr (case map_of kvs k of None \<Rightarrow> Undefined | Some v \<Rightarrow> v)"
| "get_prop v k = Inr Undefined"

definition bind_exn :: "exn + 'a \<Rightarrow> ('a \<Rightarrow> exn + 'b) \<Rightarrow> exn + 'b" where
  "bind_exn m f = (case m of Inl e \<Rightarrow> Inl e | Inr a \<Rightarrow> f a)"

section \<open>Handlers: outcomes, \<open>try\<close>, \<open>catch\<close>, \<open>finally\<close>\<close>

text \<open>
  A handler is a function from the component's state to an outcome: it returns (its promise
  is fulfilled) or it throws (its promise is rejected, the exception leaves the handler).
  Both carry the state as the handler left it.
\<close>

datatype 's outcome = Returns 's | Throws exn 's

definition state_of :: "'s outcome \<Rightarrow> 's" where
  "state_of r = (case r of Returns s \<Rightarrow> s | Throws e s \<Rightarrow> s)"

text \<open>\<open>const a = await v; k(a)\<close> in state \<open>s\<close>: a rejected \<open>v\<close> throws at that point.\<close>

definition await :: "exn + 'a \<Rightarrow> 's \<Rightarrow> ('a \<Rightarrow> 's outcome) \<Rightarrow> 's outcome" where
  "await v s k = (case v of Inl e \<Rightarrow> Throws e s | Inr a \<Rightarrow> k a)"

text \<open>The same for an expression that is evaluated on the spot and may raise.\<close>

definition evaluate :: "exn + 'a \<Rightarrow> 's \<Rightarrow> ('a \<Rightarrow> 's outcome) \<Rightarrow> 's outcome" where
  "evaluate v s k = (case v of Inl e \<Rightarrow> Throws e s | Inr a \<Rightarrow> k a)"

definition then_do :: "'s outcome \<Rightarrow> ('s \<Rightarrow> 's outcome) \<Rightarrow> 's outcome" where
  "then_do r k = (case r of Returns s \<Rightarrow> k s | Throws e s \<Rightarrow> Throws e s)"

definition try_catch :: "'s outcome \<Rightarrow> (exn \<Rightarrow> 's \<Rightarrow> 's outcome) \<Rightarrow> 's outcome" where
  "try_catch r handler = (case r of Returns s \<Rightarrow> Returns s | Throws e s \<Rightarrow> handler e s)"

definition try_finally :: "'s outcome \<Rightarrow> ('s \<Rightarrow> 's) \<Rightarrow> 's outcome" where
  "try_finally r cleanup =
     (case r of Returns s \<Rightarrow> Returns (cleanup s) | Throws e s \<Rightarrow> Throws e (cleanup s))"

section \<open>HTTP\<close>

text \<open>
  \<open>fetch\<close> is rejected on a network error and fulfilled with a response otherwise, whatever
  the status. A response holds its status and what \<open>json()\<close> decodes its body to: \<open>None\<close>
  when the body is not JSON. The server is a parameter \<open>net\<close> of every handler that calls
  \<open>fetch\<close>: the answer to each request.
\<close>

datatype http_method = GET | POST | PUT | DELETE

datatype 'd fetch_result = NetworkError | Response nat "'d option"

definition ok :: "nat \<Rightarrow> bool" where
  "ok status = (200 \<le> status \<and> status \<le> 299)"

definition json :: "nat \<times> 'd option \<Rightarrow> exn + 'd" where
  "json res = (case snd res of None \<Rightarrow> Inl SyntaxError | Some v \<Rightarrow> Inr v)"

section \<open>Notifications (the \<open>useToast\<close> hook)\<close>

datatype ToastType = Success | Error

record ToastState =
  message :: string
  toast_type :: ToastType
  visible :: bool

text \<open>Every component that calls \<open>useToast()\<close> holds a toast state of its own; \<open>console\<close>
  is what the component has logged with \<open>console.error\<close>.\<close>

record component =
  toast :: ToastState
  console :: "string list"

definition showToast :: "string \<Rightarrow> ToastType \<Rightarrow> 's component_scheme \<Rightarrow> 's component_scheme" where
  "showToast msg ty s = s\<lparr>toast := \<lparr>message = msg, toast_type = ty, visible = True\<rparr>\<rparr>"

definition hideToast :: "'s component_scheme \<Rightarrow> 's component_scheme" where
  "hideToast s = s\<lparr>toast := (toast s)\<lparr>visible := False\<rparr>\<rparr>"

definition console_error :: "string \<Rightarrow> 's component_scheme \<Rightarrow> 's component_scheme" where
  "console_error msg s = s\<lparr>console := console s @ [msg]\<rparr>"

section \<open>Data model\<close>

record XdccSearchResult =
  server :: string
  bot :: string
  pack_number :: int
  file_size :: int
  file_name :: string
  downloads :: int
  channel :: string

text \<open>
  A network definition as the settings document holds it at run time. The interface
  \<open>NetworkConfig\<close> declares the five fields; \<open>updateNetwork\<close> on a name the document
  does not have builds an object with the edited field alone, so a field is \<open>None\<close> when
  the object lacks it.
\<close>

record NetworkConfig =
  host :: "string option"
  port :: "int option"
  ssl :: "bool option"
  autojoin_channels :: "string list option"
  join_delay_secs :: "int option"

record AppConfig =
  use_ssl :: bool
  connect_timeout :: int
  general_timeout :: int
  proxy_enabled :: bool
  proxy_url :: string
  nickname :: string
  username :: string
  realname :: string
  max_retries :: int
  retry_delay :: int
  queue_limit :: int
  passive_dcc :: bool
  dcc_port_min :: int
  dcc_port_max :: int
  resume_enabled :: bool
  enabled_providers :: "string list"
  results_per_page :: int
  search_timeout :: int
  networks :: "string \<rightharpoonup> NetworkConfig"

section \<open>Requests\<close>

text \<open>The body of a request is the value that \<open>JSON.stringify\<close> is given.\<close>

datatype payload =
    DownloadUrl string
  | NetworkBody NetworkConfig
  | SettingsBody AppConfig
  | SearchIds "int list"
  | DownloadIds "string list" bool

record request =
  req_method :: http_method
  url :: string
  body :: "payload option"

definition get_request :: "string \<Rightarrow> request" where
  "get_request u = \<lparr>req_method = GET, url = u, body = None\<rparr>"

text \<open>\<open>fetch\<close>: rejected (with a \<open>TypeError\<close>) on a network error, fulfilled with the
  response otherwise.\<close>

definition fetch :: "(request \<Rightarrow> 'd fetch_result) \<Rightarrow> request \<Rightarrow> exn + nat \<times> 'd option" where
  "fetch net req =
     (case net req of NetworkError \<Rightarrow> Inl TypeError | Response status b \<Rightarrow> Inr (status, b))"

section \<open>The root component (\<open>App\<close>)\<close>

datatype tab = Tab_search | Tab_activities | Tab_history | Tab_settings

text \<open>The slices that hold response data hold whatever the response carried.\<close>

record app_state = component +
  activeTab :: tab
  searchResults :: jsval
  transfers :: jsval
  stats :: jsval
  isLoading :: bool
  queueSize :: jsval

text \<open>The three inner \<open>try\<close> blocks of \<open>fetchUpdates\<close>, in the order of the source.\<close>

definition fetchStats :: "(request \<Rightarrow> jsval fetch_result) \<Rightarrow> app_state \<Rightarrow> app_state outcome" where
  "fetchStats net s =
     try_catch
       (await (bind_exn (fetch net (get_request ''/api/bots/stats'')) json) s (\<lambda>sRes.
          evaluate (get_prop sRes ''bots'') s (\<lambda>bots.
            Returns (s\<lparr>stats := js_or bots (Arr [])\<rparr>))))
       (\<lambda>e s'. Returns (console_error ''Stats fetch failed'' s'))"

definition fetchQueue :: "(request \<Rightarrow> jsval fetch_result) \<Rightarrow> app_state \<Rightarrow> app_state outcome" where
  "fetchQueue net s =
     try_catch
       (await (bind_exn (fetch net (get_request ''/api/queue'')) json) s (\<lambda>qRes.
          evaluate (get_prop qRes ''queue_size'') s (\<lambda>queue_size.
            Returns (s\<lparr>queueSize := js_or queue_size (Num 0)\<rparr>))))
       (\<lambda>e s'. Returns (console_error ''Queue fetch failed'' s'))"

definition fetchTransfers :: "(request \<Rightarrow> jsval fetch_result) \<Rightarrow> app_state \<Rightarrow> app_state outcome" where
  "fetchTransfers net s =
     try_catch
       (await (bind_exn (fetch net (get_request ''/api/transfers'')) json) s (\<lambda>tRes.
          evaluate (get_prop tRes ''transfers'') s (\<lambda>ts.
            Returns (s\<lparr>transfers := js_or ts (Arr [])\<rparr>))))
       (\<lambda>e s'. Returns (console_error ''Transfers fetch failed'' s'))"

definition fetchUpdates :: "(request \<Rightarrow> jsval fetch_result) \<Rightarrow> app_state \<Rightarrow> app_state outcome" where
  "fetchUpdates net s =
     try_catch
       (then_do (then_do (fetchStats net s) (fetchQueue net)) (fetchTransfers net))
       (\<lambda>e s'. Returns (console_error ''Unexpected error in fetchUpdates'' s'))"

definition search_url :: "string \<Rightarrow> string list \<Rightarrow> string" where
  "search_url query providers =
     (let u = ''/api/search?query='' @ encodeURIComponent query in
      if length providers > 0
      then u @ ''&providers='' @ encodeURIComponent (join '','' providers)
      else u)"

definition handleSearch ::
  "(request \<Rightarrow> jsval fetch_result) \<Rightarrow> string \<Rightarrow> string list \<Rightarrow> app_state \<Rightarrow> app_state outcome" where
  "handleSearch net query providers s =
     (let s1 = s\<lparr>isLoading := True\<rparr> in
      try_finally
        (try_catch
           (await (fetch net (get_request (search_url query providers))) s1 (\<lambda>res.
              await (json res) s1 (\<lambda>data.
                evaluate (get_prop data ''results'') s1 (\<lambda>results.
                  Returns (s1\<lparr>searchResults := results\<rparr>)))))
           (\<lambda>e s'. Returns (showToast ''Search failed'' Error (console_error ''Search failed'' s'))))
        (\<lambda>s'. s'\<lparr>isLoading := False\<rparr>))"

text \<open>
  \<open>fetchUpdates()\<close> is called without \<open>await\<close> in the three handlers below: the handler
  does not wait for it and does not see its outcome, and its updates arrive after the
  handler's own.
\<close>

definition download_url :: "XdccSearchResult \<Rightarrow> string" where
  "download_url result =
     ''irc://'' @ server result @ ''/'' @ channel result @ ''/'' @ bot result @ ''/''
       @ string_of_int (pack_number result)"

definition handleDownload ::
  "(request \<Rightarrow> jsval fetch_result) \<Rightarrow> XdccSearchResult \<Rightarrow> app_state \<Rightarrow> app_state outcome" where
  "handleDownload net result s =
     try_catch
       (await (fetch net \<lparr>req_method = POST, url = ''/api/download'',
                          body = Some (DownloadUrl (download_url result))\<rparr>) s (\<lambda>res.
          Returns (state_of (fetchUpdates net (showToast ''Download started'' Success s)))))
       (\<lambda>e s'. Returns (showToast ''Failed to start download'' Error
                          (console_error ''Download start failed'' s')))"

definition handleCancel ::
  "(request \<Rightarrow> jsval fetch_result) \<Rightarrow> string \<Rightarrow> app_state \<Rightarrow> app_state outcome" where
  "handleCancel net tid s =
     await (fetch net \<lparr>req_method = DELETE, url = ''/api/transfers/'' @ tid, body = None\<rparr>) s
       (\<lambda>res. Returns (state_of (fetchUpdates net (showToast ''Transfer cancelled'' Success s))))"

definition handleRetry ::
  "(request \<Rightarrow> jsval fetch_result) \<Rightarrow> string \<Rightarrow> app_state \<Rightarrow> app_state outcome" where
  "handleRetry net tid s =
     await (fetch net \<lparr>req_method = POST, url = ''/api/transfers/'' @ tid @ ''/retry'',
                        body = None\<rparr>) s
       (\<lambda>res. Returns (state_of (fetchUpdates net (showToast ''Retrying transfer...'' Success s))))"

text \<open>What \<open>App\<close> renders of the notification: \<open>toast.visible && <Toast ... />\<close>. The
  root component is the only one that renders a \<open>Toast\<close>.\<close>

definition render_toast :: "app_state \<Rightarrow> (string \<times> ToastType) option" where
  "render_toast s =
     (if visible (toast s) then Some (message (toast s), toast_type (toast s)) else None)"

section \<open>Search results: server normalisation and the server facet\<close>

text \<open>\<open>norm.replace(/^irc\./, '')\<close> removes one leading \<open>irc.\<close>.\<close>

definition normalizeServer :: "string \<Rightarrow> string" where
  "normalizeServer s =
     (let norm = toLowerCase s in
      if startsWith norm ''irc.'' then drop 4 norm else norm)"

text \<open>The \<open>Map\<close> of the facet is a list of pairs in insertion order; \<open>seen_step\<close> is the
  body of the \<open>forEach\<close>.\<close>

definition seen_step :: "(string \<times> string) list \<Rightarrow> XdccSearchResult \<Rightarrow> (string \<times> string) list" where
  "seen_step seen r =
     (let norm = normalizeServer (server r) in
      if norm \<in> fst ` set seen then seen else seen @ [(norm, server r)])"

definition seen :: "XdccSearchResult list \<Rightarrow> (string \<times> string) list" where
  "seen results = foldl seen_step [] results"

text \<open>\<open>Array.from(seen.values()).sort()\<close>: the default sort compares strings by their
  code units.\<close>

definition servers :: "XdccSearchResult list \<Rightarrow> string list" where
  "servers results = sort (map snd (seen results))"

section \<open>The settings view (\<open>SettingsTab\<close>)\<close>

datatype SettingsSection =
  Sec_connection | Sec_identity | Sec_behavior | Sec_dcc | Sec_search | Sec_networks

text \<open>A key of \<open>AppConfig\<close> together with a value of that key's type: the two arguments
  of \<open>updateSetting\<close>.\<close>

datatype setting =
    Use_ssl bool
  | Connect_timeout int
  | General_timeout int
  | Proxy_enabled bool
  | Proxy_url string
  | Nickname string
  | Username string
  | Realname string
  | Max_retries int
  | Retry_delay int
  | Queue_limit int
  | Passive_dcc bool
  | Dcc_port_min int
  | Dcc_port_max int
  | Resume_enabled bool
  | Enabled_providers "string list"
  | Results_per_page int
  | Search_timeout int
  | Networks "string \<rightharpoonup> NetworkConfig"

datatype config_key =
    K_use_ssl | K_connect_timeout | K_general_timeout | K_proxy_enabled | K_proxy_url
  | K_nickname | K_username | K_realname | K_max_retries | K_retry_delay | K_queue_limit
  | K_passive_dcc | K_dcc_port_min | K_dcc_port_max | K_resume_enabled
  | K_enabled_providers | K_results_per_page | K_search_timeout | K_networks

fun key_of :: "setting \<Rightarrow> config_key" where
  "key_of (Use_ssl v) = K_use_ssl"
| "key_of (Connect_timeout v) = K_connect_timeout"
| "key_of (General_timeout v) = K_general_timeout"
| "key_of (Proxy_enabled v) = K_proxy_enabled"
| "key_of (Proxy_url v) = K_proxy_url"
| "key_of (Nickname v) = K_nickname"
| "key_of (Username v) = K_username"
| "key_of (Realname v) = K_realname"
| "key_of (Max_retries v) = K_max_retries"
| "key_of (Retry_delay v) = K_retry_delay"
| "key_of (Queue_limit v) = K_queue_limit"
| "key_of (Passive_dcc v) = K_passive_dcc"
| "key_of (Dcc_port_min v) = K_dcc_port_min"
| "key_of (Dcc_port_max v) = K_dcc_port_max"
| "key_of (Resume_enabled v) = K_resume_enabled"
| "key_of (Enabled_providers v) = K_enabled_providers"
| "key_of (Results_per_page v) = K_results_per_page"
| "key_of (Search_timeout v) = K_search_timeout"
| "key_of (Networks v) = K_networks"

text \<open>\<open>{ ...settings, [key]: value }\<close>.\<close>

fun assign_setting :: "setting \<Rightarrow> AppConfig \<Rightarrow> AppConfig" where
  "assign_setting (Use_ssl v) c = c\<lparr>use_ssl := v\<rparr>"
| "assign_setting (Connect_timeout v) c = c\<lparr>connect_timeout := v\<rparr>"
| "assign_setting (General_timeout v) c = c\<lparr>general_timeout := v\<rparr>"
| "assign_setting (Proxy_enabled v) c = c\<lparr>proxy_enabled := v\<rparr>"
| "assign_setting (Proxy_url v) c = c\<lparr>proxy_url := v\<rparr>"
| "assign_setting (Nickname v) c = c\<lparr>nickname := v\<rparr>"
| "assign_setting (Username v) c = c\<lparr>username := v\<rparr>"
| "assign_setting (Realname v) c = c\<lparr>realname := v\<rparr>"
| "assign_setting (Max_retries v) c = c\<lparr>max_retries := v\<rparr>"
| "assign_setting (Retry_delay v) c = c\<lparr>retry_delay := v\<rparr>"
| "assign_setting (Queue_limit v) c = c\<lparr>queue_limit := v\<rparr>"
| "assign_setting (Passive_dcc v) c = c\<lparr>passive_dcc := v\<rparr>"
| "assign_setting (Dcc_port_min v) c = c\<lparr>dcc_port_min := v\<rparr>"
| "assign_setting (Dcc_port_max v) c = c\<lparr>dcc_port_max := v\<rparr>"
| "assign_setting (Resume_enabled v) c = c\<lparr>resume_enabled := v\<rparr>"
| "assign_setting (Enabled_providers v) c = c\<lparr>enabled_providers := v\<rparr>"
| "assign_setting (Results_per_page v) c = c\<lparr>results_per_page := v\<rparr>"
| "assign_setting (Search_timeout v) c = c\<lparr>search_timeout := v\<rparr>"
| "assign_setting (Networks v) c = c\<lparr>networks := v\<rparr>"

text \<open>A key of \<open>NetworkConfig\<close> with its value: the last two arguments of
  \<open>updateNetwork\<close>.\<close>

datatype network_field =
    Host string
  | Port int
  | Ssl bool
  | Autojoin_channels "string list"
  | Join_delay_secs int

fun assign_network_field :: "network_field \<Rightarrow> NetworkConfig \<Rightarrow> NetworkConfig" where
  "assign_network_field (Host v) n = n\<lparr>host := Some v\<rparr>"
| "assign_network_field (Port v) n = n\<lparr>port := Some v\<rparr>"
| "assign_network_field (Ssl v) n = n\<lparr>ssl := Some v\<rparr>"
| "assign_network_field (Autojoin_channels v) n = n\<lparr>autojoin_channels := Some v\<rparr>"
| "assign_network_field (Join_delay_secs v) n = n\<lparr>join_delay_secs := Some v\<rparr>"

text \<open>\<open>{ ...undefined }\<close>: the object with no field.\<close>

definition no_fields :: NetworkConfig where
  "no_fields = \<lparr>host = None, port = None, ssl = None, autojoin_channels = None,
                 join_delay_secs = None\<rparr>"

text \<open>\<open>sent\<close> lists the requests the view has issued, oldest first.\<close>

record settings_state = component +
  settings :: "AppConfig option"
  loading :: bool
  saving :: bool
  activeSection :: SettingsSection
  newNetworkName :: string
  sent :: "request list"

definition send :: "request \<Rightarrow> settings_state \<Rightarrow> settings_state" where
  "send req s = s\<lparr>sent := sent s @ [req]\<rparr>"

definition fetchSettings ::
  "(request \<Rightarrow> AppConfig fetch_result) \<Rightarrow> settings_state \<Rightarrow> settings_state outcome" where
  "fetchSettings net s =
     (let req = get_request ''/api/settings''; s1 = send req s in
      try_finally
        (try_catch
           (await (fetch net req) s1 (\<lambda>res.
              if ok (fst res)
              then await (json res) s1 (\<lambda>data. Returns (s1\<lparr>settings := Some data\<rparr>))
              else Returns s1))
           (\<lambda>e s'. Returns (showToast ''Failed to load settings'' Error s')))
        (\<lambda>s'. s'\<lparr>loading := False\<rparr>))"

definition saveSettings ::
  "(request \<Rightarrow> AppConfig fetch_result) \<Rightarrow> settings_state \<Rightarrow> settings_state outcome" where
  "saveSettings net s =
     (case settings s of
        None \<Rightarrow> Returns s
      | Some cfg \<Rightarrow>
          (let s1 = s\<lparr>saving := True\<rparr>;
               req = \<lparr>req_method = PUT, url = ''/api/settings'', body = Some (SettingsBody cfg)\<rparr>;
               s2 = send req s1 in
           try_finally
             (try_catch
                (await (fetch net req) s2 (\<lambda>res.
                   if ok (fst res)
                   then Returns (showToast ''Settings saved!'' Success s2)
                   else Returns (showToast ''Failed to save settings'' Error s2)))
                (\<lambda>e s'. Returns (showToast ''Failed to save settings'' Error s')))
             (\<lambda>s'. s'\<lparr>saving := False\<rparr>)))"

definition updateSetting :: "setting \<Rightarrow> settings_state \<Rightarrow> settings_state" where
  "updateSetting kv s =
     (case settings s of
        Some cfg \<Rightarrow> s\<lparr>settings := Some (assign_setting kv cfg)\<rparr>
      | None \<Rightarrow> s)"

definition new_network :: "string \<Rightarrow> NetworkConfig" where
  "new_network name =
     \<lparr>host = Some (''irc.'' @ toLowerCase name @ ''.net''), port = Some 6697, ssl = Some True,
      autojoin_channels = Some [], join_delay_secs = Some 6\<rparr>"

definition network_url :: "string \<Rightarrow> string" where
  "network_url name = ''/api/settings/networks/'' @ encodeURIComponent name"

definition addNetwork ::
  "(request \<Rightarrow> AppConfig fetch_result) \<Rightarrow> settings_state \<Rightarrow> settings_state outcome" where
  "addNetwork net s =
     (case settings s of
        None \<Rightarrow> Returns s
      | Some cfg \<Rightarrow>
          if trim (newNetworkName s) = [] then Returns s
          else
            (let name = newNetworkName s;
                 network = new_network name;
                 req = \<lparr>req_method = PUT, url = network_url name,
                        body = Some (NetworkBody network)\<rparr>;
                 s1 = send req s in
             try_catch
               (await (fetch net req) s1 (\<lambda>res.
                  Returns (showToast ''Network added'' Success
                    (s1\<lparr>settings := Some (cfg\<lparr>networks := (networks cfg)(name \<mapsto> network)\<rparr>),
                        newNetworkName := []\<rparr>))))
               (\<lambda>e s'. Returns (showToast ''Failed to add network'' Error s'))))"

definition deleteNetwork ::
  "(request \<Rightarrow> AppConfig fetch_result) \<Rightarrow> string \<Rightarrow> settings_state \<Rightarrow> settings_state outcome" where
  "deleteNetwork net name s =
     (case settings s of
        None \<Rightarrow> Returns s
      | Some cfg \<Rightarrow>
          (let req = \<lparr>req_method = DELETE, url = network_url name, body = None\<rparr>;
               s1 = send req s in
           try_catch
             (await (fetch net req) s1 (\<lambda>res.
                Returns (showToast ''Network deleted'' Success
                  (s1\<lparr>settings := Some (cfg\<lparr>networks := (networks cfg)(name := None)\<rparr>)\<rparr>))))
             (\<lambda>e s'. Returns (showToast ''Failed to delete network'' Error s'))))"

definition updateNetwork :: "string \<Rightarrow> network_field \<Rightarrow> settings_state \<Rightarrow> settings_state" where
  "updateNetwork name fv s =
     (case settings s of
        None \<Rightarrow> s
      | Some cfg \<Rightarrow>
          s\<lparr>settings := Some (cfg\<lparr>networks := (networks cfg)
                (name \<mapsto> assign_network_field fv
                   (case networks cfg name of None \<Rightarrow> no_fields | Some n \<Rightarrow> n))\<rparr>)\<rparr>)"

text \<open>
  \<open>AutojoinInput\<close>: the draft \<open>localValue\<close> is parsed and handed to \<open>onChange\<close> when the
  field loses focus. The networks list passes
  \<open>(channels) => updateNetwork(name, 'autojoin_channels', channels)\<close> as \<open>onChange\<close>.
\<close>

definition handleBlur :: "string \<Rightarrow> (string list \<Rightarrow> 'a) \<Rightarrow> 'a" where
  "handleBlur localValue onChange =
     (let channels = filter (\<lambda>c. length c > 0) (map trim (split CHR '','' localValue))
      in onChange channels)"

definition autojoin_blur :: "string \<Rightarrow> string \<Rightarrow> settings_state \<Rightarrow> settings_state" where
  "autojoin_blur name localValue s =
     handleBlur localValue (\<lambda>channels. updateNetwork name (Autojoin_channels channels) s)"

section \<open>The history view (\<open>HistoryTab\<close>)\<close>

record SearchHistoryItem =
  sh_id :: int
  query :: string
  results_count :: int
  results_json :: "string option"
  searched_at :: string

record DownloadHistoryItem =
  dh_id :: string
  dh_file_name :: "string option"
  dh_size :: "int option"
  network :: string
  dh_bot :: string
  status :: string
  completed_at :: string

text \<open>
  The body of a download-history response as \<open>fetchDownloadHistory\<close> reads it: the
  paginated shape has \<open>items\<close>, \<open>total\<close> and \<open>total_pages\<close>, the older shape \<open>history\<close>
  and \<open>count\<close>. A field is \<open>None\<close> when the body lacks it.
\<close>

record download_history_data =
  items :: "DownloadHistoryItem list option"
  total_pages :: "int option"
  total :: "int option"
  history :: "DownloadHistoryItem list option"
  count :: "int option"

text \<open>\<open>n || d\<close> for a number that may be absent.\<close>

definition number_or :: "int option \<Rightarrow> int \<Rightarrow> int" where
  "number_or n d = (case n of Some x \<Rightarrow> if x \<noteq> 0 then x else d | None \<Rightarrow> d)"

datatype history_section = Downloads | Searches

text \<open>A \<open>Set\<close> of ids is the list of its members in insertion order.\<close>

record history_state = component +
  activeSection_history :: history_section
  searches :: "SearchHistoryItem list"
  searchPage :: int
  searchTotalPages :: int
  searchTotal :: int
  selectedSearches :: "int list"
  expandedSearch :: "int option"
  downloads :: "DownloadHistoryItem list"
  downloadPage :: int
  downloadTotalPages :: int
  downloadTotal :: int
  selectedDownloads :: "string list"
  loading_history :: bool

definition history_url :: "int \<Rightarrow> string" where
  "history_url page = ''/api/history?page='' @ string_of_int page @ ''&limit=10''"

definition fetchDownloadHistory ::
  "(request \<Rightarrow> download_history_data fetch_result) \<Rightarrow> history_state \<Rightarrow> history_state outcome" where
  "fetchDownloadHistory net s =
     (let s1 = s\<lparr>loading_history := True\<rparr> in
      then_do
        (try_catch
           (await (fetch net (get_request (history_url (downloadPage s)))) s1 (\<lambda>res.
              await (json res) s1 (\<lambda>data.
                case items data of
                  Some its \<Rightarrow>
                    Returns (s1\<lparr>downloads := its,
                                 downloadTotalPages := number_or (total_pages data) 1,
                                 downloadTotal := number_or (total data) (int (length its))\<rparr>)
                | None \<Rightarrow>
                    (case history data of
                       Some h \<Rightarrow>
                         Returns (s1\<lparr>downloads := h,
                                      downloadTotalPages := 1,
                                      downloadTotal := number_or (count data) (int (length h))\<rparr>)
                     | None \<Rightarrow> Returns s1))))
           (\<lambda>e s'. Returns (console_error ''Failed to fetch download history:'' s')))
        (\<lambda>s'. Returns (s'\<lparr>loading_history := False\<rparr>)))"

text \<open>The two page buttons of the download history:
  \<open>setDownloadPage(p => Math.max(1, p - 1))\<close> and
  \<open>setDownloadPage(p => Math.min(downloadTotalPages, p + 1))\<close>.\<close>

definition prevDownloadPage :: "history_state \<Rightarrow> history_state" where
  "prevDownloadPage s = s\<lparr>downloadPage := max 1 (downloadPage s - 1)\<rparr>"

definition nextDownloadPage :: "history_state \<Rightarrow> history_state" where
  "nextDownloadPage s = s\<lparr>downloadPage := min (downloadTotalPages s) (downloadPage s + 1)\<rparr>"

definition handleDeleteSearch ::
  "(request \<Rightarrow> 'd fetch_result) \<Rightarrow> int \<Rightarrow> history_state \<Rightarrow> history_state outcome" where
  "handleDeleteSearch net i s =
     try_catch
       (await (fetch net \<lparr>req_method = DELETE, url = ''/api/search-history/'' @ string_of_int i,
                          body = None\<rparr>) s (\<lambda>res.
          Returns (s\<lparr>searches := filter (\<lambda>x. sh_id x \<noteq> i) (searches s),
                      searchTotal := searchTotal s - 1\<rparr>)))
       (\<lambda>e s'. Returns (console_error ''Failed to delete search:'' s'))"

text \<open>\<open>window.confirm\<close> is the parameter \<open>confirm\<close>: the user's answer to each question.\<close>

definition handleBulkDeleteSearches ::
  "(request \<Rightarrow> 'd fetch_result) \<Rightarrow> (string \<Rightarrow> bool) \<Rightarrow> history_state \<Rightarrow> history_state outcome" where
  "handleBulkDeleteSearches net confirm s =
     (let sel = selectedSearches s in
      if length sel = 0 then Returns s
      else if \<not> confirm (''Delete '' @ string_of_nat (length sel) @ '' search history items?'')
      then Returns s
      else
        try_catch
          (await (fetch net \<lparr>req_method = POST, url = ''/api/search-history/bulk'',
                             body = Some (SearchIds sel)\<rparr>) s (\<lambda>res.
             Returns (s\<lparr>searches := filter (\<lambda>x. sh_id x \<notin> set sel) (searches s),
                         searchTotal := searchTotal s - int (length sel),
                         selectedSearches := []\<rparr>)))
          (\<lambda>e s'. Returns (console_error ''Failed to bulk delete searches:'' s')))"

definition handleBulkDeleteDownloads ::
  "(request \<Rightarrow> 'd fetch_result) \<Rightarrow> (string \<Rightarrow> bool) \<Rightarrow> bool \<Rightarrow> history_state
     \<Rightarrow> history_state outcome" where
  "handleBulkDeleteDownloads net confirm deleteFiles s =
     (let sel = selectedDownloads s;
          msg = (if deleteFiles
                 then ''Delete '' @ string_of_nat (length sel) @ '' items AND their files from disk?''
                 else ''Remove '' @ string_of_nat (length sel) @ '' items from history?'') in
      if length sel = 0 then Returns s
      else if \<not> confirm msg then Returns s
      else
        try_catch
          (await (fetch net \<lparr>req_method = POST, url = ''/api/history/bulk'',
                             body = Some (DownloadIds sel deleteFiles)\<rparr>) s (\<lambda>res.
             Returns (s\<lparr>downloads := filter (\<lambda>d. dh_id d \<notin> set sel) (downloads s),
                         downloadTotal := downloadTotal s - int (length sel),
                         selectedDownloads := []\<rparr>)))
          (\<lambda>e s'. Returns (console_error ''Failed to bulk delete downloads:'' s')))"

definition handleDeleteDownload ::
  "(request \<Rightarrow> 'd fetch_result) \<Rightarrow> string \<Rightarrow> bool \<Rightarrow> history_state \<Rightarrow> history_state outcome" where
  "handleDeleteDownload net i deleteFile s =
     try_catch
       (await (fetch net \<lparr>req_method = DELETE,
                          url = ''/api/history/'' @ i @ ''?delete_file='' @ string_of_bool deleteFile,
                          body = None\<rparr>) s (\<lambda>res.
          Returns (s\<lparr>downloads := filter (\<lambda>d. dh_id d \<noteq> i) (downloads s),
                      downloadTotal := downloadTotal s - 1\<rparr>)))
       (\<lambda>e s'. Returns (console_error ''Failed to delete download:'' s'))"

definition toggleDownloadSelection :: "string \<Rightarrow> history_state \<Rightarrow> history_state" where
  "toggleDownloadSelection i s =
     s\<lparr>selectedDownloads :=
         (if i \<in> set (selectedDownloads s) then removeAll i (selectedDownloads s)
          else selectedDownloads s @ [i])\<rparr>"

text \<open>\<open>new Set(xs)\<close>: the members of \<open>xs\<close>, each once, in the order of their first
  occurrence.\<close>

definition new_Set :: "'a list \<Rightarrow> 'a list" where
  "new_Set xs = foldl (\<lambda>acc x. if x \<in> set acc then acc else acc @ [x]) [] xs"

definition selectAllDownloads :: "history_state \<Rightarrow> history_state" where
  "selectAllDownloads s =
     (if length (selectedDownloads s) = length (downloads s)
      then s\<lparr>selectedDownloads := []\<rparr>
      else s\<lparr>selectedDownloads := new_Set (map dh_id (downloads s))\<rparr>)"

text \<open>The click on a row's result count:
  \<open>setExpandedSearch(expandedSearch === item.id ? null : item.id)\<close>.\<close>

definition toggleExpanded :: "int \<Rightarrow> history_state \<Rightarrow> history_state" where
  "toggleExpanded i s =
     s\<lparr>expandedSearch := (if expandedSearch s = Some i then None else Some i)\<rparr>"

text \<open>\<open>xs.map(f)\<close> for a callback that may raise, and for a receiver that may not be an
  array: a value without a callable \<open>map\<close> raises a \<open>TypeError\<close>.\<close>

fun map_exn :: "('a \<Rightarrow> exn + 'b) \<Rightarrow> 'a list \<Rightarrow> exn + 'b list" where
  "map_exn f [] = Inr []"
| "map_exn f (x # xs) =
     bind_exn (f x) (\<lambda>y. bind_exn (map_exn f xs) (\<lambda>ys. Inr (y # ys)))"

definition array_map :: "jsval \<Rightarrow> (jsval \<Rightarrow> exn + 'b) \<Rightarrow> exn + 'b list" where
  "array_map v f = (case v of Arr xs \<Rightarrow> map_exn f xs | _ \<Rightarrow> Inl TypeError)"

text \<open>A row of the nested table: the file name, the size, the bot and the server, as
  read from the decoded element.\<close>

definition render_result :: "jsval \<Rightarrow> exn + jsval list" where
  "render_result r =
     bind_exn (get_prop r ''file_name'') (\<lambda>fname.
     bind_exn (get_prop r ''size_str'') (\<lambda>size_str.
     bind_exn (get_prop r ''bot'') (\<lambda>b.
     bind_exn (get_prop r ''server'') (\<lambda>srv.
       Inr [fname, size_str, b, srv]))))"

text \<open>
  What a row of the search history renders under itself:
  \<open>expandedSearch === item.id && item.results_json && (... JSON.parse(item.results_json).map(...))\<close>.
  \<open>None\<close> is no nested table. \<open>JSON.parse\<close> is the parameter \<open>JSON_parse\<close>, with \<open>None\<close>
  for a text that is not JSON, where it raises a \<open>SyntaxError\<close>.
\<close>

definition render_expanded ::
  "(string \<Rightarrow> jsval option) \<Rightarrow> int option \<Rightarrow> SearchHistoryItem \<Rightarrow> exn + jsval list list option" where
  "render_expanded JSON_parse expanded item =
     (if expanded = Some (sh_id item)
      then (case results_json item of
              None \<Rightarrow> Inr None
            | Some j \<Rightarrow>
                if j = [] then Inr None
                else bind_exn (case JSON_parse j of None \<Rightarrow> Inl SyntaxError | Some v \<Rightarrow> Inr v)
                       (\<lambda>v. bind_exn (array_map v render_result) (\<lambda>rows. Inr (Some rows))))
      else Inr None)"

text \<open>The body of the search-history table: \<open>searches.map(item => ...)\<close>. An exception
  here is raised while the view renders.\<close>

definition render_searches ::
  "(string \<Rightarrow> jsval option) \<Rightarrow> history_state \<Rightarrow> exn + jsval list list option list" where
  "render_searches JSON_parse s =
     map_exn (render_expanded JSON_parse (expandedSearch s)) (searches s)"

section \<open>Example values\<close>

text \<open>Concrete inputs for the examples that follow the theorems.\<close>

definition ex_result :: "string \<Rightarrow> XdccSearchResult" where
  "ex_result srv =
     \<lparr>server = srv, bot = ''Bot1'', pack_number = 7, file_size = 1048576,
      file_name = ''linux.iso'', downloads = 3, channel = ''#packs''\<rparr>"

definition ex_config :: AppConfig where
  "ex_config =
     \<lparr>use_ssl = True, connect_timeout = 15, general_timeout = 120, proxy_enabled = False,
      proxy_url = [], nickname = ''botarr'', username = ''botarr'', realname = ''Botarr'',
      max_retries = 3, retry_delay = 30, queue_limit = 2, passive_dcc = False,
      dcc_port_min = 49152, dcc_port_max = 65535, resume_enabled = True,
      enabled_providers = [''SkullXDCC''], results_per_page = 50, search_timeout = 30,
      networks = [''Rizon'' \<mapsto> new_network ''Rizon'']\<rparr>"

definition no_toast :: ToastState where
  "no_toast = \<lparr>message = [], toast_type = Success, visible = False\<rparr>"

definition ex_settings :: settings_state where
  "ex_settings =
     \<lparr>toast = no_toast, console = [], settings = Some ex_config, loading = False,
      saving = False, activeSection = Sec_networks, newNetworkName = ''My Net'', sent = []\<rparr>"

definition ex_app :: app_state where
  "ex_app =
     \<lparr>toast = no_toast, console = [], activeTab = Tab_activities,
      searchResults = Arr [Obj [(''server'', Str ''irc.foo.net''), (''file_name'', Str ''linux.iso'')]],
      transfers = Arr [Obj [(''id'', Str ''abc''), (''status'', Str ''failed'')]],
      stats = Arr [Obj [(''bot_name'', Str ''Bot1''), (''total_bytes'', Num 1024)]],
      isLoading = False,
      queueSize = Num 2\<rparr>"

text \<open>A server whose statistics endpoint answers 500 with a JSON error body while the
  queue and the transfer list answer 200.\<close>

definition ex_net_stats_500 :: "request \<Rightarrow> jsval fetch_result" where
  "ex_net_stats_500 req =
     (if url req = ''/api/bots/stats''
      then Response 500 (Some (Obj [(''error'', Str ''internal error'')]))
      else if url req = ''/api/queue''
      then Response 200 (Some (Obj [(''queue_size'', Num 5)]))
      else if url req = ''/api/transfers''
      then Response 200 (Some (Obj [(''transfers'', Arr [])]))
      else NetworkError)"

text \<open>A server that answers every request with status 200 and an empty body.\<close>

definition ex_net_ok :: "request \<Rightarrow> 'd fetch_result" where
  "ex_net_ok req = Response 200 None"

text \<open>A server that cannot be reached.\<close>

definition ex_net_down :: "request \<Rightarrow> 'd fetch_result" where
  "ex_net_down req = NetworkError"

definition ex_download :: "string \<Rightarrow> DownloadHistoryItem" where
  "ex_download i =
     \<lparr>dh_id = i, dh_file_name = Some ''linux.iso'', dh_size = Some 1048576, network = ''Rizon'',
      dh_bot = ''Bot1'', status = ''completed'', completed_at = ''2024-01-01T00:00:00Z''\<rparr>"

definition ex_search :: "int \<Rightarrow> string option \<Rightarrow> SearchHistoryItem" where
  "ex_search i snapshot =
     \<lparr>sh_id = i, query = ''linux'', results_count = 2, results_json = snapshot,
      searched_at = ''2024-01-01T00:00:00Z''\<rparr>"

text \<open>The history view on page 1 of the downloads, with the download \<open>a\<close> selected; the
  stored snapshot of search 1 is the text \<open>{\<close>, search 2 has none.\<close>

definition ex_history :: history_state where
  "ex_history =
     \<lparr>toast = no_toast, console = [], activeSection_history = Downloads,
      searches = [ex_search 1 (Some ''{''), ex_search 2 None],
      searchPage = 1, searchTotalPages = 1, searchTotal = 2,
      selectedSearches = [1], expandedSearch = None,
      downloads = [ex_download ''a''],
      downloadPage = 1, downloadTotalPages = 2, downloadTotal = 2,
      selectedDownloads = [''a''],
      loading_history = False\<rparr>"

text \<open>A server that answers every request with page 2 of the download history: the one
  item \<open>b\<close>.\<close>

definition ex_net_page2 :: "request \<Rightarrow> download_history_data fetch_result" where
  "ex_net_page2 req =
     Response 200 (Some \<lparr>items = Some [ex_download ''b''], total_pages = Some 2, total = Some 2,
                           history = None, count = None\<rparr>)"

text \<open>A \<open>JSON.parse\<close> that accepts the text \<open>[]\<close> alone.\<close>

definition ex_parse :: "string \<Rightarrow> jsval option" where
  "ex_parse j = (if j = ''[]'' then Some (Arr []) else None)"

section \<open>Properties\<close>

subsection \<open>Server normalisation\<close>

text \<open>Facts of lower-casing on ASCII strings.\<close>

lemma toLower_char_idem: "toLower_char (toLower_char c) = toLower_char c"
  by (simp add: toLower_char_def Let_def)

lemma is_ascii_toLowerCase: "is_ascii s \<Longrightarrow> is_ascii (toLowerCase s)"
  by (induction s) (auto simp: is_ascii_def toLowerCase_def toLower_char_def Let_def)

lemma is_ascii_drop: "is_ascii s \<Longrightarrow> is_ascii (drop n s)"
  by (auto simp: is_ascii_def list_all_iff dest: in_set_dropD)

lemma toLowerCase_idem: "is_ascii s \<Longrightarrow> toLowerCase (toLowerCase s) = toLowerCase s"
  by (simp add: toLowerCase_def toLower_char_idem)

lemma toLowerCase_irc:
  "is_ascii s \<Longrightarrow>
     toLowerCase (CHR ''i'' # CHR ''r'' # CHR ''c'' # CHR ''.'' # s) =
       CHR ''i'' # CHR ''r'' # CHR ''c'' # CHR ''.'' # toLowerCase s"
  by (simp add: toLowerCase_def toLower_char_def char_of_eq_iff)

lemma toLowerCase_drop: "is_ascii s \<Longrightarrow> toLowerCase (drop n s) = drop n (toLowerCase s)"
  by (simp add: toLowerCase_def drop_map)

lemma is_ascii_normalizeServer: "is_ascii s \<Longrightarrow> is_ascii (normalizeServer s)"
  by (simp add: normalizeServer_def Let_def is_ascii_toLowerCase is_ascii_drop)

lemma normalizeServer_lower:
  "is_ascii s \<Longrightarrow> toLowerCase (normalizeServer s) = normalizeServer s"
  by (simp add: normalizeServer_def Let_def toLowerCase_drop toLowerCase_idem
      is_ascii_toLowerCase)

lemma normalizeServer_irc:
  "is_ascii s \<Longrightarrow>
     normalizeServer (CHR ''i'' # CHR ''r'' # CHR ''c'' # CHR ''.'' # s) = toLowerCase s"
  by (simp add: normalizeServer_def Let_def toLowerCase_irc startsWith_def)

lemma drop4_neq: "startsWith t ''irc.'' \<Longrightarrow> drop 4 t \<noteq> t"
proof
  assume "startsWith t ''irc.''" and "drop 4 t = t"
  then have "length (drop 4 t) = length t" and "4 \<le> length t"
    by (auto simp: startsWith_def dest: arg_cong [where f = length])
  then show False by simp
qed

text \<open>
  C5 (as amended). For every server string \<open>s\<close> of ASCII characters:
  \<open>normalizeServer s\<close> equals \<open>normalizeServer ("irc." + s)\<close> exactly when the lower-cased
  \<open>s\<close> does not start with \<open>irc.\<close>, and normalising twice gives the same as normalising
  once exactly when \<open>normalizeServer s\<close> does not itself start with \<open>irc.\<close>.
\<close>

theorem normalizeServer_prefix_and_idempotence:
  assumes "is_ascii s"
  shows "(normalizeServer s = normalizeServer (''irc.'' @ s))
            = (\<not> startsWith (toLowerCase s) ''irc.'')
         \<and> (normalizeServer (normalizeServer s) = normalizeServer s)
            = (\<not> startsWith (normalizeServer s) ''irc.'')"
proof
  show "(normalizeServer s = normalizeServer (''irc.'' @ s))
          = (\<not> startsWith (toLowerCase s) ''irc.'')"
  proof -
    have "normalizeServer (''irc.'' @ s) = toLowerCase s"
      using assms by (simp add: normalizeServer_irc)
    then show ?thesis
      using drop4_neq [of "toLowerCase s"]
      by (auto simp: normalizeServer_def [of s] Let_def)
  qed
next
  have "normalizeServer (normalizeServer s) =
          (if startsWith (normalizeServer s) ''irc.'' then drop 4 (normalizeServer s)
           else normalizeServer s)"
    using normalizeServer_lower [OF assms]
    by (simp add: normalizeServer_def [of "normalizeServer s"] Let_def)
  then show "(normalizeServer (normalizeServer s) = normalizeServer s)
               = (\<not> startsWith (normalizeServer s) ''irc.'')"
    using drop4_neq [of "normalizeServer s"] by auto
qed

text \<open>The ASCII string \<open>Foo.net\<close>: its lower-cased form does not start with \<open>irc.\<close>, it
  and \<open>irc.Foo.net\<close> have the normal form \<open>foo.net\<close>, and normalising again changes
  nothing.\<close>

theorem normalizeServer_prefix_and_idempotence_witness:
  "is_ascii ''Foo.net''
   \<and> \<not> startsWith (toLowerCase ''Foo.net'') ''irc.''
   \<and> normalizeServer ''Foo.net'' = ''foo.net''
   \<and> normalizeServer ''Foo.net'' = normalizeServer (''irc.'' @ ''Foo.net'')
   \<and> normalizeServer (normalizeServer ''Foo.net'') = normalizeServer ''Foo.net''"
  using normalizeServer_prefix_and_idempotence [of "''Foo.net''"]
  by (simp add: is_ascii_def normalizeServer_def toLowerCase_def toLower_char_def
      startsWith_def char_of_eq_iff)

text \<open>
  C5 as stated fails, on ASCII strings: \<open>IRC.a\<close> does not start with \<open>irc.\<close>, yet it and
  \<open>irc.IRC.a\<close> have different normal forms; and \<open>irc.irc.a\<close> is normalised to \<open>irc.a\<close>,
  which is normalised to \<open>a\<close>.
\<close>

theorem normalizeServer_counterexample:
  "is_ascii ''IRC.a'' \<and> is_ascii ''irc.irc.a''
   \<and> \<not> startsWith ''IRC.a'' ''irc.''
   \<and> normalizeServer ''IRC.a'' \<noteq> normalizeServer (''irc.'' @ ''IRC.a'')
   \<and> normalizeServer (normalizeServer ''irc.irc.a'') \<noteq> normalizeServer ''irc.irc.a''"
  by (simp add: is_ascii_def normalizeServer_def toLowerCase_def toLower_char_def
      startsWith_def char_of_eq_iff)

subsection \<open>The server facet\<close>

lemma seen_Nil: "seen [] = []"
  by (simp add: seen_def)

lemma seen_snoc: "seen (rs @ [r]) = seen_step (seen rs) r"
  by (simp add: seen_def)

lemma seen_distinct: "distinct (map fst (seen rs))"
  by (induction rs rule: rev_induct) (auto simp: seen_Nil seen_snoc seen_step_def Let_def)

lemma seen_entry: "(k, v) \<in> set (seen rs) \<Longrightarrow> normalizeServer v = k"
  by (induction rs rule: rev_induct)
    (auto simp: seen_Nil seen_snoc seen_step_def Let_def split: if_splits)

lemma find_snoc:
  "find P (xs @ [x]) =
     (case find P xs of Some y \<Rightarrow> Some y | None \<Rightarrow> if P x then Some x else None)"
  by (induction xs) auto

text \<open>The value stored under a key is the raw server of the first result with that key.\<close>

lemma seen_first:
  "map_of (seen rs) k = map_option server (find (\<lambda>x. normalizeServer (server x) = k) rs)"
proof (induction rs rule: rev_induct)
  case Nil
  show ?case by (simp add: seen_Nil)
next
  case (snoc r rs)
  show ?case
  proof (cases "normalizeServer (server r) \<in> fst ` set (seen rs)")
    case True
    then have "seen (rs @ [r]) = seen rs"
      by (simp add: seen_snoc seen_step_def Let_def)
    moreover from True
    have "k = normalizeServer (server r) \<Longrightarrow> map_of (seen rs) k \<noteq> None"
      by (simp add: map_of_eq_None_iff)
    ultimately show ?thesis
      using snoc by (auto simp: find_snoc split: option.splits)
  next
    case False
    then have s: "seen (rs @ [r]) = seen rs @ [(normalizeServer (server r), server r)]"
      by (simp add: seen_snoc seen_step_def Let_def)
    from False have "k = normalizeServer (server r) \<Longrightarrow> map_of (seen rs) k = None"
      by (simp add: map_of_eq_None_iff)
    then show ?thesis
      using snoc by (auto simp: s find_snoc map_add_def split: option.splits)
  qed
qed

lemma filter_key_single:
  "distinct (map fst S) \<Longrightarrow> map_of S k = Some v \<Longrightarrow> filter (\<lambda>p. fst p = k) S = [(k, v)]"
proof (induction S)
  case Nil
  then show ?case by simp
next
  case (Cons p S)
  show ?case
  proof (cases "fst p = k")
    case True
    with Cons.prems have "p = (k, v)"
      by (cases p) auto
    moreover have "filter (\<lambda>p. fst p = k) S = []"
    proof -
      from True Cons.prems have "k \<notin> fst ` set S" by simp
      then have "\<forall>q \<in> set S. fst q \<noteq> k" by blast
      then show ?thesis by (simp add: filter_empty_conv)
    qed
    ultimately show ?thesis by simp
  next
    case False
    with Cons show ?thesis by (cases p) auto
  qed
qed

lemmas string_eval =
  normalizeServer_def toLowerCase_def toLower_char_def startsWith_def char_of_eq_iff
  isSpace_def trim_def

text \<open>
  C7. Let \<open>r\<close> be any result of the list and \<open>k\<close> the normal form of its server. The facet
  list \<open>servers results\<close> has exactly one entry whose normal form is \<open>k\<close>, and that entry is
  the raw server string of the first result in input order whose server normalises to \<open>k\<close>
  (also when two or more raw strings share the key).
\<close>

theorem servers_one_entry_first_occurrence:
  assumes "r \<in> set results"
  shows "\<exists>first.
           find (\<lambda>x. normalizeServer (server x) = normalizeServer (server r)) results = Some first
           \<and> filter (\<lambda>d. normalizeServer d = normalizeServer (server r)) (servers results)
               = [server first]"
proof -
  let ?k = "normalizeServer (server r)"
  from assms obtain first
    where f: "find (\<lambda>x. normalizeServer (server x) = ?k) results = Some first"
    by (cases "find (\<lambda>x. normalizeServer (server x) = ?k) results") (auto simp: find_None_iff)
  then have m: "map_of (seen results) ?k = Some (server first)"
    by (simp add: seen_first)
  have "filter (\<lambda>p. normalizeServer (snd p) = ?k) (seen results)
          = filter (\<lambda>p. fst p = ?k) (seen results)"
    by (rule filter_cong) (auto dest: seen_entry)
  also have "\<dots> = [(?k, server first)]"
    by (rule filter_key_single [OF seen_distinct m])
  finally have "filter (\<lambda>d. normalizeServer d = ?k) (map snd (seen results)) = [server first]"
    by (simp add: filter_map comp_def)
  then have "filter (\<lambda>d. normalizeServer d = ?k) (servers results) = [server first]"
    by (simp add: servers_def filter_sort)
  with f show ?thesis by blast
qed

text \<open>The spec's example: \<open>irc.foo.net\<close> before \<open>foo.net\<close> gives the one entry
  \<open>irc.foo.net\<close>.\<close>

theorem servers_one_entry_witness:
  "ex_result ''foo.net'' \<in> set [ex_result ''irc.foo.net'', ex_result ''foo.net'']
   \<and> (\<exists>first.
         find (\<lambda>x. normalizeServer (server x) = normalizeServer (server (ex_result ''foo.net'')))
           [ex_result ''irc.foo.net'', ex_result ''foo.net''] = Some first
         \<and> filter (\<lambda>d. normalizeServer d = normalizeServer (server (ex_result ''foo.net'')))
             (servers [ex_result ''irc.foo.net'', ex_result ''foo.net'']) = [server first])
   \<and> servers [ex_result ''irc.foo.net'', ex_result ''foo.net''] = [''irc.foo.net'']
   \<and> servers [ex_result ''foo.net'', ex_result ''irc.foo.net''] = [''foo.net'']"
  using servers_one_entry_first_occurrence
    [of "ex_result ''foo.net''" "[ex_result ''irc.foo.net'', ex_result ''foo.net'']"]
  by (simp add: servers_def seen_def seen_step_def Let_def ex_result_def string_eval)

subsection \<open>The autojoin field\<close>

lemma split_not_Nil: "split sep s \<noteq> []"
  by (induction s) auto

text \<open>The segments are the input cut at the separators: joining them gives the input
  back, and no segment holds a separator.\<close>

lemma join_split: "join [sep] (split sep s) = s"
proof (induction s)
  case Nil
  show ?case by simp
next
  case (Cons c cs)
  obtain w ws where "split sep cs = w # ws"
    using split_not_Nil [of sep cs] by (cases "split sep cs") auto
  with Cons show ?case by (cases ws) auto
qed

lemma split_no_sep: "seg \<in> set (split sep s) \<Longrightarrow> sep \<notin> set seg"
proof (induction s arbitrary: seg)
  case Nil
  then show ?case by simp
next
  case (Cons c cs)
  obtain w ws where "split sep cs = w # ws"
    using split_not_Nil [of sep cs] by (cases "split sep cs") auto
  with Cons show ?case by (auto split: if_splits)
qed

lemma last_dropWhile: "dropWhile P xs \<noteq> [] \<Longrightarrow> last (dropWhile P xs) = last xs"
  by (induction xs) (auto split: if_splits)

lemma trim_ends:
  assumes "trim c \<noteq> []"
  shows "\<not> isSpace (hd (trim c)) \<and> \<not> isSpace (last (trim c))"
proof -
  let ?d = "dropWhile isSpace c"
  let ?e = "dropWhile isSpace (rev ?d)"
  from assms have e: "?e \<noteq> []" by (simp add: trim_def)
  then have d: "?d \<noteq> []" by (cases ?d) auto
  have "last (trim c) = hd ?e" using e by (simp add: trim_def last_rev)
  moreover have "\<not> isSpace (hd ?e)" using e by (rule hd_dropWhile)
  moreover have "hd (trim c) = last ?e" using e by (simp add: trim_def hd_rev)
  moreover have "last ?e = hd ?d" using e d by (simp add: last_dropWhile last_rev)
  moreover have "\<not> isSpace (hd ?d)" using d by (rule hd_dropWhile)
  ultimately show ?thesis by simp
qed

text \<open>\<open>trim\<close> removes white space at the two ends and nothing else.\<close>

lemma trim_decomp: "\<exists>l r. c = l @ trim c @ r \<and> list_all isSpace l \<and> list_all isSpace r"
proof -
  let ?d = "dropWhile isSpace c"
  have 1: "c = takeWhile isSpace c @ ?d" by simp
  have "?d = rev (takeWhile isSpace (rev ?d) @ dropWhile isSpace (rev ?d))"
    by (simp only: takeWhile_dropWhile_id rev_rev_ident)
  then have "?d = rev (dropWhile isSpace (rev ?d)) @ rev (takeWhile isSpace (rev ?d))"
    by (simp only: rev_append)
  then have "c = takeWhile isSpace c @ trim c @ rev (takeWhile isSpace (rev ?d))"
    using 1 by (simp add: trim_def)
  moreover have "list_all isSpace (takeWhile isSpace c)"
    by (simp add: list_all_iff) (metis set_takeWhileD)
  moreover have "list_all isSpace (rev (takeWhile isSpace (rev ?d)))"
    by (simp add: list_all_iff) (metis set_takeWhileD)
  ultimately show ?thesis by blast
qed

lemma set_trim: "set (trim c) \<subseteq> set c"
  using trim_decomp [of c] by (metis Un_upper1 Un_upper2 set_append subset_trans)

lemma updateNetwork_entry:
  "settings s = Some cfg \<Longrightarrow>
     \<exists>cfg'. settings (updateNetwork name fv s) = Some cfg'
       \<and> networks cfg' name = Some (assign_network_field fv
            (case networks cfg name of None \<Rightarrow> no_fields | Some n \<Rightarrow> n))
       \<and> (\<forall>other. other \<noteq> name \<longrightarrow> networks cfg' other = networks cfg other)"
  by (simp add: updateNetwork_def)

text \<open>
  C8. When the autojoin field loses focus, \<open>handleBlur\<close> hands to \<open>onChange\<close> the draft
  split at the commas, each segment trimmed, the empty ones dropped, in the order of the
  draft. The segments are the draft cut at its commas; every channel handed over is
  non-empty, has no white space at either end and no comma. The draft \<open>#a, #b ,  #c\<close>
  gives \<open>[#a, #b, #c]\<close>. In the networks list the parsed list becomes the network's
  \<open>autojoin_channels\<close> in the settings document.
\<close>

theorem handleBlur_parses_channels:
  "handleBlur localValue onChange
      = onChange (filter (\<lambda>c. c \<noteq> []) (map trim (split CHR '','' localValue)))
   \<and> join '','' (split CHR '','' localValue) = localValue
   \<and> list_all (\<lambda>c. c \<noteq> [] \<and> \<not> isSpace (hd c) \<and> \<not> isSpace (last c) \<and> CHR '','' \<notin> set c)
        (handleBlur localValue (\<lambda>channels. channels))
   \<and> handleBlur ''#a, #b ,  #c'' (\<lambda>channels. channels) = [''#a'', ''#b'', ''#c'']
   \<and> (settings s = Some cfg \<longrightarrow>
        (\<exists>cfg' n. settings (autojoin_blur name localValue s) = Some cfg'
           \<and> networks cfg' name = Some n
           \<and> autojoin_channels n = Some (handleBlur localValue (\<lambda>channels. channels))))"
proof -
  have 1: "handleBlur localValue onChange
             = onChange (filter (\<lambda>c. c \<noteq> []) (map trim (split CHR '','' localValue)))"
    by (simp add: handleBlur_def)
  have 2: "join '','' (split CHR '','' localValue) = localValue"
    by (rule join_split)
  have 3: "list_all (\<lambda>c. c \<noteq> [] \<and> \<not> isSpace (hd c) \<and> \<not> isSpace (last c) \<and> CHR '','' \<notin> set c)
             (handleBlur localValue (\<lambda>channels. channels))"
  proof -
    have "c \<noteq> [] \<and> \<not> isSpace (hd c) \<and> \<not> isSpace (last c) \<and> CHR '','' \<notin> set c"
      if "c \<in> set (handleBlur localValue (\<lambda>channels. channels))" for c
    proof -
      from that obtain seg where seg: "seg \<in> set (split CHR '','' localValue)"
        and c: "c = trim seg" and ne: "c \<noteq> []"
        by (auto simp: handleBlur_def)
      from seg have "CHR '','' \<notin> set seg" by (rule split_no_sep)
      with set_trim [of seg] c have "CHR '','' \<notin> set c" by blast
      with trim_ends [of seg] c ne show ?thesis by simp
    qed
    then show ?thesis by (simp add: list_all_iff)
  qed
  have 4: "handleBlur ''#a, #b ,  #c'' (\<lambda>channels. channels) = [''#a'', ''#b'', ''#c'']"
    by (simp add: handleBlur_def string_eval)
  have 5: "\<exists>cfg' n. settings (autojoin_blur name localValue s) = Some cfg'
             \<and> networks cfg' name = Some n
             \<and> autojoin_channels n = Some (handleBlur localValue (\<lambda>channels. channels))"
    if "settings s = Some cfg"
  proof -
    let ?chs = "handleBlur localValue (\<lambda>channels. channels)"
    have "autojoin_blur name localValue s = updateNetwork name (Autojoin_channels ?chs) s"
      by (simp add: autojoin_blur_def handleBlur_def)
    with updateNetwork_entry [OF that, of name "Autojoin_channels ?chs"]
    show ?thesis by auto
  qed
  from 1 2 3 4 5 show ?thesis by blast
qed

theorem handleBlur_parses_channels_witness:
  "settings ex_settings = Some ex_config
   \<and> (\<exists>cfg' n. settings (autojoin_blur ''Rizon'' ''#a, #b ,  #c'' ex_settings) = Some cfg'
         \<and> networks cfg' ''Rizon'' = Some n
         \<and> autojoin_channels n = Some [''#a'', ''#b'', ''#c'']
         \<and> host n = Some ''irc.rizon.net'')"
  using handleBlur_parses_channels
    [of "''#a, #b ,  #c''" "\<lambda>channels. channels" ex_settings ex_config "''Rizon''"]
  by (simp add: ex_settings_def ex_config_def autojoin_blur_def handleBlur_def
      updateNetwork_def new_network_def string_eval)

subsection \<open>Editing a scalar setting\<close>

text \<open>
  C9. \<open>updateSetting\<close> with a key and a value, on a loaded settings document, gives the
  document in which that key holds the value and every other field of \<open>AppConfig\<close>, the
  networks map included, is as before; nothing else of the view's state changes. Without
  a loaded document it does nothing.
\<close>

theorem updateSetting_frame:
  "(settings s = None \<longrightarrow> updateSetting kv s = s)
   \<and> (settings s = Some cfg \<longrightarrow>
        (\<exists>cfg'. updateSetting kv s = s\<lparr>settings := Some cfg'\<rparr>
           \<and> assign_setting kv cfg' = cfg'
           \<and> (key_of kv \<noteq> K_use_ssl \<longrightarrow> use_ssl cfg' = use_ssl cfg)
           \<and> (key_of kv \<noteq> K_connect_timeout \<longrightarrow> connect_timeout cfg' = connect_timeout cfg)
           \<and> (key_of kv \<noteq> K_general_timeout \<longrightarrow> general_timeout cfg' = general_timeout cfg)
           \<and> (key_of kv \<noteq> K_proxy_enabled \<longrightarrow> proxy_enabled cfg' = proxy_enabled cfg)
           \<and> (key_of kv \<noteq> K_proxy_url \<longrightarrow> proxy_url cfg' = proxy_url cfg)
           \<and> (key_of kv \<noteq> K_nickname \<longrightarrow> nickname cfg' = nickname cfg)
           \<and> (key_of kv \<noteq> K_username \<longrightarrow> username cfg' = username cfg)
           \<and> (key_of kv \<noteq> K_realname \<longrightarrow> realname cfg' = realname cfg)
           \<and> (key_of kv \<noteq> K_max_retries \<longrightarrow> max_retries cfg' = max_retries cfg)
           \<and> (key_of kv \<noteq> K_retry_delay \<longrightarrow> retry_delay cfg' = retry_delay cfg)
           \<and> (key_of kv \<noteq> K_queue_limit \<longrightarrow> queue_limit cfg' = queue_limit cfg)
           \<and> (key_of kv \<noteq> K_passive_dcc \<longrightarrow> passive_dcc cfg' = passive_dcc cfg)
           \<and> (key_of kv \<noteq> K_dcc_port_min \<longrightarrow> dcc_port_min cfg' = dcc_port_min cfg)
           \<and> (key_of kv \<noteq> K_dcc_port_max \<longrightarrow> dcc_port_max cfg' = dcc_port_max cfg)
           \<and> (key_of kv \<noteq> K_resume_enabled \<longrightarrow> resume_enabled cfg' = resume_enabled cfg)
           \<and> (key_of kv \<noteq> K_enabled_providers \<longrightarrow> enabled_providers cfg' = enabled_providers cfg)
           \<and> (key_of kv \<noteq> K_results_per_page \<longrightarrow> results_per_page cfg' = results_per_page cfg)
           \<and> (key_of kv \<noteq> K_search_timeout \<longrightarrow> search_timeout cfg' = search_timeout cfg)
           \<and> (key_of kv \<noteq> K_networks \<longrightarrow> networks cfg' = networks cfg)))"
proof (intro conjI impI)
  assume "settings s = None"
  then show "updateSetting kv s = s"
    by (simp add: updateSetting_def)
next
  assume "settings s = Some cfg"
  then show "\<exists>cfg'. updateSetting kv s = s\<lparr>settings := Some cfg'\<rparr>
           \<and> assign_setting kv cfg' = cfg'
           \<and> (key_of kv \<noteq> K_use_ssl \<longrightarrow> use_ssl cfg' = use_ssl cfg)
           \<and> (key_of kv \<noteq> K_connect_timeout \<longrightarrow> connect_timeout cfg' = connect_timeout cfg)
           \<and> (key_of kv \<noteq> K_general_timeout \<longrightarrow> general_timeout cfg' = general_timeout cfg)
           \<and> (key_of kv \<noteq> K_proxy_enabled \<longrightarrow> proxy_enabled cfg' = proxy_enabled cfg)
           \<and> (key_of kv \<noteq> K_proxy_url \<longrightarrow> proxy_url cfg' = proxy_url cfg)
           \<and> (key_of kv \<noteq> K_nickname \<longrightarrow> nickname cfg' = nickname cfg)
           \<and> (key_of kv \<noteq> K_username \<longrightarrow> username cfg' = username cfg)
           \<and> (key_of kv \<noteq> K_realname \<longrightarrow> realname cfg' = realname cfg)
           \<and> (key_of kv \<noteq> K_max_retries \<longrightarrow> max_retries cfg' = max_retries cfg)
           \<and> (key_of kv \<noteq> K_retry_delay \<longrightarrow> retry_delay cfg' = retry_delay cfg)
           \<and> (key_of kv \<noteq> K_queue_limit \<longrightarrow> queue_limit cfg' = queue_limit cfg)
           \<and> (key_of kv \<noteq> K_passive_dcc \<longrightarrow> passive_dcc cfg' = passive_dcc cfg)
           \<and> (key_of kv \<noteq> K_dcc_port_min \<longrightarrow> dcc_port_min cfg' = dcc_port_min cfg)
           \<and> (key_of kv \<noteq> K_dcc_port_max \<longrightarrow> dcc_port_max cfg' = dcc_port_max cfg)
           \<and> (key_of kv \<noteq> K_resume_enabled \<longrightarrow> resume_enabled cfg' = resume_enabled cfg)
           \<and> (key_of kv \<noteq> K_enabled_providers \<longrightarrow> enabled_providers cfg' = enabled_providers cfg)
           \<and> (key_of kv \<noteq> K_results_per_page \<longrightarrow> results_per_page cfg' = results_per_page cfg)
           \<and> (key_of kv \<noteq> K_search_timeout \<longrightarrow> search_timeout cfg' = search_timeout cfg)
           \<and> (key_of kv \<noteq> K_networks \<longrightarrow> networks cfg' = networks cfg)"
    by (intro exI [of _ "assign_setting kv cfg"]) (cases kv; simp add: updateSetting_def)
qed

theorem updateSetting_frame_witness:
  "settings ex_settings = Some ex_config
   \<and> key_of (Nickname ''neo'') = K_nickname
   \<and> (\<exists>cfg'. updateSetting (Nickname ''neo'') ex_settings = ex_settings\<lparr>settings := Some cfg'\<rparr>
         \<and> nickname cfg' = ''neo''
         \<and> username cfg' = ''botarr''
         \<and> results_per_page cfg' = 50
         \<and> networks cfg' = networks ex_config)"
proof -
  have s: "settings ex_settings = Some ex_config"
    by (simp add: ex_settings_def)
  from updateSetting_frame [of ex_settings "Nickname ''neo''" ex_config] s
  obtain cfg' where u: "updateSetting (Nickname ''neo'') ex_settings = ex_settings\<lparr>settings := Some cfg'\<rparr>"
    and a: "assign_setting (Nickname ''neo'') cfg' = cfg'"
    and f: "username cfg' = username ex_config"
      "results_per_page cfg' = results_per_page ex_config"
      "networks cfg' = networks ex_config"
    by auto
  have "nickname (assign_setting (Nickname ''neo'') cfg') = ''neo''"
    by simp
  with a have "nickname cfg' = ''neo''"
    by simp
  with s u f show ?thesis
    by (intro conjI exI [of _ cfg']) (simp_all add: ex_config_def)
qed

subsection \<open>The poll cycle\<close>

lemmas handler_defs = await_def evaluate_def then_do_def try_catch_def try_finally_def
  bind_exn_def fetch_def json_def state_of_def

text \<open>Each inner block returns, and changes its own slice or logs.\<close>

lemma fetchStats_eq:
  "fetchStats net s = Returns
     (case net (get_request ''/api/bots/stats'') of
        NetworkError \<Rightarrow> console_error ''Stats fetch failed'' s
      | Response st None \<Rightarrow> console_error ''Stats fetch failed'' s
      | Response st (Some v) \<Rightarrow>
          (case get_prop v ''bots'' of
             Inl e \<Rightarrow> console_error ''Stats fetch failed'' s
           | Inr b \<Rightarrow> s\<lparr>stats := js_or b (Arr [])\<rparr>))"
  by (simp add: fetchStats_def handler_defs split: fetch_result.splits option.splits sum.splits)

lemma fetchQueue_eq:
  "fetchQueue net s = Returns
     (case net (get_request ''/api/queue'') of
        NetworkError \<Rightarrow> console_error ''Queue fetch failed'' s
      | Response st None \<Rightarrow> console_error ''Queue fetch failed'' s
      | Response st (Some v) \<Rightarrow>
          (case get_prop v ''queue_size'' of
             Inl e \<Rightarrow> console_error ''Queue fetch failed'' s
           | Inr b \<Rightarrow> s\<lparr>queueSize := js_or b (Num 0)\<rparr>))"
  by (simp add: fetchQueue_def handler_defs split: fetch_result.splits option.splits sum.splits)

lemma fetchTransfers_eq:
  "fetchTransfers net s = Returns
     (case net (get_request ''/api/transfers'') of
        NetworkError \<Rightarrow> console_error ''Transfers fetch failed'' s
      | Response st None \<Rightarrow> console_error ''Transfers fetch failed'' s
      | Response st (Some v) \<Rightarrow>
          (case get_prop v ''transfers'' of
             Inl e \<Rightarrow> console_error ''Transfers fetch failed'' s
           | Inr b \<Rightarrow> s\<lparr>transfers := js_or b (Arr [])\<rparr>))"
  by (simp add: fetchTransfers_def handler_defs split: fetch_result.splits option.splits sum.splits)

lemma state_of_Returns: "state_of (Returns x) = x"
  by (simp add: state_of_def)

lemma fetchUpdates_Returns:
  "fetchUpdates net s = Returns (state_of (fetchTransfers net (state_of (fetchQueue net (state_of (fetchStats net s))))))"
  by (simp add: fetchUpdates_def fetchStats_eq fetchQueue_eq fetchTransfers_eq then_do_def try_catch_def state_of_def)

lemma fetchStats_frame:
  "queueSize (state_of (fetchStats net s)) = queueSize s"
  "transfers (state_of (fetchStats net s)) = transfers s"
  "searchResults (state_of (fetchStats net s)) = searchResults s"
  "isLoading (state_of (fetchStats net s)) = isLoading s"
  "activeTab (state_of (fetchStats net s)) = activeTab s"
  "toast (state_of (fetchStats net s)) = toast s"
  by (simp_all add: fetchStats_eq state_of_def console_error_def
      split: fetch_result.splits option.splits sum.splits)

lemma fetchQueue_frame:
  "stats (state_of (fetchQueue net s)) = stats s"
  "transfers (state_of (fetchQueue net s)) = transfers s"
  "searchResults (state_of (fetchQueue net s)) = searchResults s"
  "isLoading (state_of (fetchQueue net s)) = isLoading s"
  "activeTab (state_of (fetchQueue net s)) = activeTab s"
  "toast (state_of (fetchQueue net s)) = toast s"
  by (simp_all add: fetchQueue_eq state_of_def console_error_def
      split: fetch_result.splits option.splits sum.splits)

lemma fetchTransfers_frame:
  "stats (state_of (fetchTransfers net s)) = stats s"
  "queueSize (state_of (fetchTransfers net s)) = queueSize s"
  "searchResults (state_of (fetchTransfers net s)) = searchResults s"
  "isLoading (state_of (fetchTransfers net s)) = isLoading s"
  "activeTab (state_of (fetchTransfers net s)) = activeTab s"
  "toast (state_of (fetchTransfers net s)) = toast s"
  by (simp_all add: fetchTransfers_eq state_of_def console_error_def
      split: fetch_result.splits option.splits sum.splits)

lemma fetchStats_slice:
  "stats (state_of (fetchStats net s)) =
       (case net (get_request ''/api/bots/stats'') of
          NetworkError \<Rightarrow> stats s
        | Response st None \<Rightarrow> stats s
        | Response st (Some v) \<Rightarrow>
            (case get_prop v ''bots'' of Inl e \<Rightarrow> stats s | Inr b \<Rightarrow> js_or b (Arr [])))"
  by (simp add: fetchStats_eq state_of_def console_error_def
      split: fetch_result.splits option.splits sum.splits)

lemma fetchQueue_slice:
  "queueSize (state_of (fetchQueue net s)) =
       (case net (get_request ''/api/queue'') of
          NetworkError \<Rightarrow> queueSize s
        | Response st None \<Rightarrow> queueSize s
        | Response st (Some v) \<Rightarrow>
            (case get_prop v ''queue_size'' of Inl e \<Rightarrow> queueSize s | Inr b \<Rightarrow> js_or b (Num 0)))"
  by (simp add: fetchQueue_eq state_of_def console_error_def
      split: fetch_result.splits option.splits sum.splits)

lemma fetchTransfers_slice:
  "transfers (state_of (fetchTransfers net s)) =
       (case net (get_request ''/api/transfers'') of
          NetworkError \<Rightarrow> transfers s
        | Response st None \<Rightarrow> transfers s
        | Response st (Some v) \<Rightarrow>
            (case get_prop v ''transfers'' of Inl e \<Rightarrow> transfers s | Inr b \<Rightarrow> js_or b (Arr [])))"
  by (simp add: fetchTransfers_eq state_of_def console_error_def
      split: fetch_result.splits option.splits sum.splits)

text \<open>
  C1 (as amended). A poll cycle never throws, and each of the three slices depends on its
  own response alone. The slice keeps its pre-cycle value when the fetch is rejected
  (network error), when the body is not JSON, and when the JSON body is \<open>null\<close>. Every
  other response with a JSON body, whatever its status, replaces the slice: with the
  field \<open>bots\<close>, \<open>queue_size\<close> or \<open>transfers\<close> of the body, or with \<open>[]\<close>, \<open>0\<close> or \<open>[]\<close>
  when that field is absent or falsy. The other slices of the root component are
  untouched.
\<close>

theorem fetchUpdates_slices:
  "(\<exists>s'. fetchUpdates net s = Returns s')
   \<and> stats (state_of (fetchUpdates net s)) =
       (case net (get_request ''/api/bots/stats'') of
          NetworkError \<Rightarrow> stats s
        | Response st None \<Rightarrow> stats s
        | Response st (Some v) \<Rightarrow>
            (case get_prop v ''bots'' of Inl e \<Rightarrow> stats s | Inr b \<Rightarrow> js_or b (Arr [])))
   \<and> queueSize (state_of (fetchUpdates net s)) =
       (case net (get_request ''/api/queue'') of
          NetworkError \<Rightarrow> queueSize s
        | Response st None \<Rightarrow> queueSize s
        | Response st (Some v) \<Rightarrow>
            (case get_prop v ''queue_size'' of Inl e \<Rightarrow> queueSize s | Inr b \<Rightarrow> js_or b (Num 0)))
   \<and> transfers (state_of (fetchUpdates net s)) =
       (case net (get_request ''/api/transfers'') of
          NetworkError \<Rightarrow> transfers s
        | Response st None \<Rightarrow> transfers s
        | Response st (Some v) \<Rightarrow>
            (case get_prop v ''transfers'' of Inl e \<Rightarrow> transfers s | Inr b \<Rightarrow> js_or b (Arr [])))
   \<and> searchResults (state_of (fetchUpdates net s)) = searchResults s
   \<and> isLoading (state_of (fetchUpdates net s)) = isLoading s
   \<and> activeTab (state_of (fetchUpdates net s)) = activeTab s
   \<and> toast (state_of (fetchUpdates net s)) = toast s"
  unfolding fetchUpdates_Returns state_of_Returns
    fetchStats_frame fetchQueue_frame fetchTransfers_frame
    fetchStats_slice fetchQueue_slice fetchTransfers_slice
  by simp

text \<open>
  C1 as stated fails for a response that is not 2xx: the statistics endpoint answers 500
  with the JSON body \<open>{"error": "internal error"}\<close>, and the statistics, one bot before the
  cycle, are the empty list after it.
\<close>

theorem fetchUpdates_counterexample:
  "\<not> ok 500
   \<and> ex_net_stats_500 (get_request ''/api/bots/stats'') = Response 500 (Some (Obj [(''error'', Str ''internal error'')]))
   \<and> stats ex_app = Arr [Obj [(''bot_name'', Str ''Bot1''), (''total_bytes'', Num 1024)]]
   \<and> stats (state_of (fetchUpdates ex_net_stats_500 ex_app)) = Arr []
   \<and> queueSize (state_of (fetchUpdates ex_net_stats_500 ex_app)) = Num 5"
  by (simp add: fetchUpdates_Returns fetchStats_eq fetchQueue_eq fetchTransfers_eq state_of_def
      ex_net_stats_500_def ex_app_def get_request_def js_or_def ok_def)

subsection \<open>Searching\<close>

text \<open>
  C2 (as amended). \<open>handleSearch\<close> always returns with the loading flag cleared. When the
  fetch is rejected or the body is not JSON, the result set is left as it was before the
  search (so it is empty only if it was empty), the failure is logged and the
  notification \<open>Search failed\<close> is shown. When the body is JSON with a \<open>results\<close> field
  that can be read, the result set is replaced by it.
\<close>

theorem handleSearch_outcome:
  "(\<exists>s'. handleSearch net q ps s = Returns s' \<and> \<not> isLoading s')
   \<and> ((net (get_request (search_url q ps)) = NetworkError
        \<or> (\<exists>st. net (get_request (search_url q ps)) = Response st None)) \<longrightarrow>
         searchResults (state_of (handleSearch net q ps s)) = searchResults s
         \<and> render_toast (state_of (handleSearch net q ps s)) = Some (''Search failed'', Error)
         \<and> console (state_of (handleSearch net q ps s)) = console s @ [''Search failed''])
   \<and> (\<forall>st data rs. net (get_request (search_url q ps)) = Response st (Some data)
         \<and> get_prop data ''results'' = Inr rs \<longrightarrow>
         searchResults (state_of (handleSearch net q ps s)) = rs
         \<and> toast (state_of (handleSearch net q ps s)) = toast s)"
  by (auto simp: handleSearch_def handler_defs Let_def showToast_def console_error_def render_toast_def
      split: fetch_result.splits option.splits sum.splits)

theorem handleSearch_witness:
  "ex_net_down (get_request (search_url ''linux'' [])) = (NetworkError :: jsval fetch_result)
   \<and> searchResults (state_of (handleSearch ex_net_down ''linux'' [] ex_app)) = searchResults ex_app
   \<and> render_toast (state_of (handleSearch ex_net_down ''linux'' [] ex_app)) = Some (''Search failed'', Error)
   \<and> \<not> isLoading (state_of (handleSearch ex_net_down ''linux'' [] ex_app))"
  using handleSearch_outcome [of ex_net_down "''linux''" "[]" ex_app]
  by (auto simp: ex_net_down_def state_of_def)

text \<open>C2 as stated fails: a failed search after a successful one leaves the old results in
  place, not the empty list.\<close>

theorem handleSearch_counterexample:
  "ex_net_down (get_request (search_url ''linux'' [])) = (NetworkError :: jsval fetch_result)
   \<and> searchResults (state_of (handleSearch ex_net_down ''linux'' [] ex_app))
       = Arr [Obj [(''server'', Str ''irc.foo.net''), (''file_name'', Str ''linux.iso'')]]
   \<and> searchResults (state_of (handleSearch ex_net_down ''linux'' [] ex_app)) \<noteq> Arr []"
  by (simp add: handleSearch_def handler_defs Let_def showToast_def console_error_def ex_net_down_def ex_app_def)

subsection \<open>Failures of write operations\<close>

text \<open>
  C4 (as amended). A rejected HTTP call is caught in the handlers for start download,
  save settings and the four history deletes, and each of them returns. Start download
  logs the error and shows \<open>Failed to start download\<close>. Save settings sets the settings
  view's toast state to \<open>Failed to save settings\<close>, also for a response that is not 2xx,
  and logs nothing. The history deletes (single and bulk, once confirmed) log the error
  and change nothing else: no notification, and the list, the total and the selection
  stay as they were. Nothing is stated here about cancel and retry.
\<close>

theorem write_failures:
  "(net_a \<lparr>req_method = POST, url = ''/api/download'', body = Some (DownloadUrl (download_url result))\<rparr>
        = NetworkError \<longrightarrow>
      handleDownload net_a result a
        = Returns (showToast ''Failed to start download'' Error (console_error ''Download start failed'' a))
      \<and> render_toast (state_of (handleDownload net_a result a)) = Some (''Failed to start download'', Error))
   \<and> (settings c = Some cfg
       \<and> (net_c \<lparr>req_method = PUT, url = ''/api/settings'', body = Some (SettingsBody cfg)\<rparr> = NetworkError
          \<or> (\<exists>st b. net_c \<lparr>req_method = PUT, url = ''/api/settings'', body = Some (SettingsBody cfg)\<rparr> = Response st b
                \<and> \<not> ok st)) \<longrightarrow>
      (\<exists>c'. saveSettings net_c c = Returns c'
         \<and> toast c' = \<lparr>message = ''Failed to save settings'', toast_type = Error, visible = True\<rparr>
         \<and> console c' = console c \<and> settings c' = settings c \<and> \<not> saving c'))
   \<and> (net_h \<lparr>req_method = DELETE, url = ''/api/search-history/'' @ string_of_int i, body = None\<rparr>
        = NetworkError \<longrightarrow>
      handleDeleteSearch net_h i h = Returns (console_error ''Failed to delete search:'' h))
   \<and> (net_h \<lparr>req_method = DELETE,
               url = ''/api/history/'' @ j @ ''?delete_file='' @ string_of_bool deleteFile,
               body = None\<rparr> = NetworkError \<longrightarrow>
      handleDeleteDownload net_h j deleteFile h = Returns (console_error ''Failed to delete download:'' h))
   \<and> (selectedSearches h \<noteq> [] \<and> (\<forall>question. confirm question)
       \<and> net_h \<lparr>req_method = POST, url = ''/api/search-history/bulk'',
                  body = Some (SearchIds (selectedSearches h))\<rparr> = NetworkError \<longrightarrow>
      handleBulkDeleteSearches net_h confirm h
        = Returns (console_error ''Failed to bulk delete searches:'' h))
   \<and> (selectedDownloads h \<noteq> [] \<and> (\<forall>question. confirm question)
       \<and> net_h \<lparr>req_method = POST, url = ''/api/history/bulk'',
                  body = Some (DownloadIds (selectedDownloads h) deleteFile)\<rparr> = NetworkError \<longrightarrow>
      handleBulkDeleteDownloads net_h confirm deleteFile h
        = Returns (console_error ''Failed to bulk delete downloads:'' h))"
proof (intro conjI impI)
  assume "net_a \<lparr>req_method = POST, url = ''/api/download'', body = Some (DownloadUrl (download_url result))\<rparr> = NetworkError"
  then show "handleDownload net_a result a
        = Returns (showToast ''Failed to start download'' Error (console_error ''Download start failed'' a))"
    by (simp add: handleDownload_def handler_defs)
  then show "render_toast (state_of (handleDownload net_a result a)) = Some (''Failed to start download'', Error)"
    by (simp add: state_of_def render_toast_def showToast_def)
next
  assume "settings c = Some cfg
       \<and> (net_c \<lparr>req_method = PUT, url = ''/api/settings'', body = Some (SettingsBody cfg)\<rparr> = NetworkError
          \<or> (\<exists>st b. net_c \<lparr>req_method = PUT, url = ''/api/settings'', body = Some (SettingsBody cfg)\<rparr> = Response st b
                \<and> \<not> ok st))"
  then show "\<exists>c'. saveSettings net_c c = Returns c'
         \<and> toast c' = \<lparr>message = ''Failed to save settings'', toast_type = Error, visible = True\<rparr>
         \<and> console c' = console c \<and> settings c' = settings c \<and> \<not> saving c'"
    by (auto simp: saveSettings_def handler_defs Let_def showToast_def send_def)
next
  assume "net_h \<lparr>req_method = DELETE, url = ''/api/search-history/'' @ string_of_int i, body = None\<rparr> = NetworkError"
  then show "handleDeleteSearch net_h i h = Returns (console_error ''Failed to delete search:'' h)"
    by (simp add: handleDeleteSearch_def handler_defs)
next
  assume "net_h \<lparr>req_method = DELETE,
               url = ''/api/history/'' @ j @ ''?delete_file='' @ string_of_bool deleteFile,
               body = None\<rparr> = NetworkError"
  then show "handleDeleteDownload net_h j deleteFile h = Returns (console_error ''Failed to delete download:'' h)"
    by (simp add: handleDeleteDownload_def handler_defs)
next
  assume "selectedSearches h \<noteq> [] \<and> (\<forall>question. confirm question)
       \<and> net_h \<lparr>req_method = POST, url = ''/api/search-history/bulk'',
                  body = Some (SearchIds (selectedSearches h))\<rparr> = NetworkError"
  then show "handleBulkDeleteSearches net_h confirm h
        = Returns (console_error ''Failed to bulk delete searches:'' h)"
    by (simp add: handleBulkDeleteSearches_def handler_defs Let_def)
next
  assume "selectedDownloads h \<noteq> [] \<and> (\<forall>question. confirm question)
       \<and> net_h \<lparr>req_method = POST, url = ''/api/history/bulk'',
                  body = Some (DownloadIds (selectedDownloads h) deleteFile)\<rparr> = NetworkError"
  then show "handleBulkDeleteDownloads net_h confirm deleteFile h
        = Returns (console_error ''Failed to bulk delete downloads:'' h)"
    by (simp add: handleBulkDeleteDownloads_def handler_defs Let_def)
qed

theorem write_failures_witness:
  "render_toast (state_of (handleDownload ex_net_down (ex_result ''irc.foo.net'') ex_app))
      = Some (''Failed to start download'', Error)
   \<and> console (state_of (handleDownload ex_net_down (ex_result ''irc.foo.net'') ex_app))
      = [''Download start failed'']
   \<and> settings ex_settings = Some ex_config
   \<and> toast (state_of (saveSettings ex_net_down ex_settings))
      = \<lparr>message = ''Failed to save settings'', toast_type = Error, visible = True\<rparr>
   \<and> console (state_of (saveSettings ex_net_down ex_settings)) = []
   \<and> handleDeleteSearch (ex_net_down :: request \<Rightarrow> jsval fetch_result) 1 ex_history
      = Returns (console_error ''Failed to delete search:'' ex_history)
   \<and> handleDeleteDownload (ex_net_down :: request \<Rightarrow> jsval fetch_result) ''a'' True ex_history
      = Returns (console_error ''Failed to delete download:'' ex_history)
   \<and> handleBulkDeleteSearches (ex_net_down :: request \<Rightarrow> jsval fetch_result) (\<lambda>question. True) ex_history
      = Returns (console_error ''Failed to bulk delete searches:'' ex_history)
   \<and> handleBulkDeleteDownloads (ex_net_down :: request \<Rightarrow> jsval fetch_result) (\<lambda>question. True) True ex_history
      = Returns (console_error ''Failed to bulk delete downloads:'' ex_history)
   \<and> toast (console_error ''Failed to delete search:'' ex_history) = no_toast"
  using write_failures [of ex_net_down "ex_result ''irc.foo.net''" ex_app ex_settings ex_config
      ex_net_down "ex_net_down :: request \<Rightarrow> jsval fetch_result" 1 ex_history "''a''" True "\<lambda>question. True"]
  by (auto simp: ex_net_down_def state_of_def showToast_def console_error_def ex_settings_def
      ex_history_def ex_app_def)

text \<open>
  C4 as stated fails. Cancel and retry have no \<open>try\<close>: with the server down the
  rejected call leaves the handler as a \<open>TypeError\<close>, and no notification is shown. A
  failed delete of a search record is logged, and the toast stays hidden. A failed save
  logs nothing.
\<close>

theorem write_failures_counterexample:
  "handleCancel ex_net_down ''abc'' ex_app = Throws TypeError ex_app
   \<and> handleRetry ex_net_down ''abc'' ex_app = Throws TypeError ex_app
   \<and> render_toast ex_app = None
   \<and> handleDeleteSearch (ex_net_down :: request \<Rightarrow> jsval fetch_result) 1 ex_history
       = Returns (console_error ''Failed to delete search:'' ex_history)
   \<and> visible (toast (console_error ''Failed to delete search:'' ex_history)) = False
   \<and> console (state_of (saveSettings ex_net_down ex_settings)) = []"
  by (simp add: handleCancel_def handleRetry_def handleDeleteSearch_def saveSettings_def
      handler_defs ex_net_down_def render_toast_def ex_app_def ex_history_def ex_settings_def
      no_toast_def console_error_def showToast_def send_def Let_def)

subsection \<open>Which edits of the settings issue a request\<close>

text \<open>
  C6 (as amended). With a settings document loaded: adding a network (a name that is not
  blank) issues \<open>PUT /api/settings/networks/{name}\<close> with the new definition as body,
  deleting one issues \<open>DELETE /api/settings/networks/{name}\<close>, the name URI-encoded, and
  the in-memory document is updated as well unless the call is rejected (then it stays as
  it was). Updating a
  field of a network with \<open>updateNetwork\<close>, like every edit with \<open>updateSetting\<close>, issues
  no request and changes the in-memory document alone. Saving issues
  \<open>PUT /api/settings\<close> with the whole document.
\<close>

theorem network_calls:
  "settings s = Some cfg \<longrightarrow>
     (trim (newNetworkName s) \<noteq> [] \<longrightarrow>
        sent (state_of (addNetwork net s))
          = sent s @ [\<lparr>req_method = PUT,
                       url = ''/api/settings/networks/'' @ encodeURIComponent (newNetworkName s),
                       body = Some (NetworkBody (new_network (newNetworkName s)))\<rparr>]
        \<and> (net \<lparr>req_method = PUT,
                 url = ''/api/settings/networks/'' @ encodeURIComponent (newNetworkName s),
                 body = Some (NetworkBody (new_network (newNetworkName s)))\<rparr> \<noteq> NetworkError \<longrightarrow>
            settings (state_of (addNetwork net s))
              = Some (cfg\<lparr>networks := (networks cfg)
                         (newNetworkName s \<mapsto> new_network (newNetworkName s))\<rparr>))
        \<and> (net \<lparr>req_method = PUT,
                 url = ''/api/settings/networks/'' @ encodeURIComponent (newNetworkName s),
                 body = Some (NetworkBody (new_network (newNetworkName s)))\<rparr> = NetworkError \<longrightarrow>
            settings (state_of (addNetwork net s)) = Some cfg))
     \<and> sent (state_of (deleteNetwork net name s))
          = sent s @ [\<lparr>req_method = DELETE,
                       url = ''/api/settings/networks/'' @ encodeURIComponent name,
                       body = None\<rparr>]
     \<and> (net \<lparr>req_method = DELETE, url = ''/api/settings/networks/'' @ encodeURIComponent name,
              body = None\<rparr> \<noteq> NetworkError \<longrightarrow>
         settings (state_of (deleteNetwork net name s))
           = Some (cfg\<lparr>networks := (networks cfg)(name := None)\<rparr>))
     \<and> (net \<lparr>req_method = DELETE, url = ''/api/settings/networks/'' @ encodeURIComponent name,
              body = None\<rparr> = NetworkError \<longrightarrow>
         settings (state_of (deleteNetwork net name s)) = Some cfg)
     \<and> sent (updateNetwork name fv s) = sent s
     \<and> settings (updateNetwork name fv s)
          = Some (cfg\<lparr>networks := (networks cfg)
               (name \<mapsto> assign_network_field fv
                  (case networks cfg name of None \<Rightarrow> no_fields | Some n \<Rightarrow> n))\<rparr>)
     \<and> sent (updateSetting kv s) = sent s
     \<and> sent (state_of (saveSettings net s))
          = sent s @ [\<lparr>req_method = PUT, url = ''/api/settings'', body = Some (SettingsBody cfg)\<rparr>]"
proof (intro conjI impI)
  assume c: "settings s = Some cfg"
  show "sent (updateNetwork name fv s) = sent s"
    using c by (simp add: updateNetwork_def)
  show "settings (updateNetwork name fv s)
          = Some (cfg\<lparr>networks := (networks cfg)
               (name \<mapsto> assign_network_field fv
                  (case networks cfg name of None \<Rightarrow> no_fields | Some n \<Rightarrow> n))\<rparr>)"
    using c by (simp add: updateNetwork_def)
  show "sent (updateSetting kv s) = sent s"
    using c by (simp add: updateSetting_def)
  show "sent (state_of (saveSettings net s))
          = sent s @ [\<lparr>req_method = PUT, url = ''/api/settings'', body = Some (SettingsBody cfg)\<rparr>]"
    using c by (simp add: saveSettings_def handler_defs Let_def send_def showToast_def
        split: fetch_result.splits)
  show "sent (state_of (deleteNetwork net name s))
          = sent s @ [\<lparr>req_method = DELETE,
                       url = ''/api/settings/networks/'' @ encodeURIComponent name,
                       body = None\<rparr>]"
    using c by (simp add: deleteNetwork_def handler_defs Let_def send_def showToast_def network_url_def
        split: fetch_result.splits)
  {
    assume "net \<lparr>req_method = DELETE, url = ''/api/settings/networks/'' @ encodeURIComponent name,
              body = None\<rparr> \<noteq> NetworkError"
    then show "settings (state_of (deleteNetwork net name s))
           = Some (cfg\<lparr>networks := (networks cfg)(name := None)\<rparr>)"
      using c by (simp add: deleteNetwork_def handler_defs Let_def send_def showToast_def network_url_def
          split: fetch_result.splits)
  }
  {
    assume "net \<lparr>req_method = DELETE, url = ''/api/settings/networks/'' @ encodeURIComponent name,
              body = None\<rparr> = NetworkError"
    then show "settings (state_of (deleteNetwork net name s)) = Some cfg"
      using c by (simp add: deleteNetwork_def handler_defs Let_def send_def showToast_def network_url_def)
  }
  assume n: "trim (newNetworkName s) \<noteq> []"
  {
    assume "net \<lparr>req_method = PUT,
                 url = ''/api/settings/networks/'' @ encodeURIComponent (newNetworkName s),
                 body = Some (NetworkBody (new_network (newNetworkName s)))\<rparr> = NetworkError"
    then show "settings (state_of (addNetwork net s)) = Some cfg"
      using c n by (simp add: addNetwork_def handler_defs Let_def send_def showToast_def network_url_def)
  }
  show "sent (state_of (addNetwork net s))
          = sent s @ [\<lparr>req_method = PUT,
                       url = ''/api/settings/networks/'' @ encodeURIComponent (newNetworkName s),
                       body = Some (NetworkBody (new_network (newNetworkName s)))\<rparr>]"
    using c n by (simp add: addNetwork_def handler_defs Let_def send_def showToast_def network_url_def
        split: fetch_result.splits)
  assume "net \<lparr>req_method = PUT,
                 url = ''/api/settings/networks/'' @ encodeURIComponent (newNetworkName s),
                 body = Some (NetworkBody (new_network (newNetworkName s)))\<rparr> \<noteq> NetworkError"
  then show "settings (state_of (addNetwork net s))
              = Some (cfg\<lparr>networks := (networks cfg)
                         (newNetworkName s \<mapsto> new_network (newNetworkName s))\<rparr>)"
    using c n by (simp add: addNetwork_def handler_defs Let_def send_def showToast_def network_url_def
        split: fetch_result.splits)
qed

theorem network_calls_witness:
  "settings ex_settings = Some ex_config
   \<and> trim (newNetworkName ex_settings) \<noteq> []
   \<and> sent (state_of (addNetwork ex_net_ok ex_settings))
       = [\<lparr>req_method = PUT, url = ''/api/settings/networks/My%20Net'',
            body = Some (NetworkBody (new_network ''My Net''))\<rparr>]
   \<and> settings (state_of (addNetwork ex_net_ok ex_settings))
       = Some (ex_config\<lparr>networks := (networks ex_config)(''My Net'' \<mapsto> new_network ''My Net'')\<rparr>)
   \<and> sent (state_of (deleteNetwork ex_net_ok ''Rizon'' ex_settings))
       = [\<lparr>req_method = DELETE, url = ''/api/settings/networks/Rizon'', body = None\<rparr>]
   \<and> settings (state_of (deleteNetwork ex_net_ok ''Rizon'' ex_settings))
       = Some (ex_config\<lparr>networks := (networks ex_config)(''Rizon'' := None)\<rparr>)
   \<and> sent (updateNetwork ''Rizon'' (Port 6667) ex_settings) = []
   \<and> sent (updateSetting (Nickname ''neo'') ex_settings) = []
   \<and> sent (state_of (saveSettings ex_net_ok ex_settings))
       = [\<lparr>req_method = PUT, url = ''/api/settings'', body = Some (SettingsBody ex_config)\<rparr>]"
  using network_calls [of ex_settings ex_config ex_net_ok "''Rizon''" "Port 6667" "Nickname ''neo''"]
  by (simp add: ex_settings_def ex_net_ok_def encodeURIComponent_def percent_encode_def
      unreserved_def hex_digit_def string_eval)

text \<open>C6 as stated fails for updates: changing the port of the network \<open>Rizon\<close> changes the
  document in memory and issues no request.\<close>

theorem network_calls_counterexample:
  "settings ex_settings = Some ex_config
   \<and> networks ex_config ''Rizon'' = Some (new_network ''Rizon'')
   \<and> sent ex_settings = []
   \<and> sent (updateNetwork ''Rizon'' (Port 6667) ex_settings) = []
   \<and> settings (updateNetwork ''Rizon'' (Port 6667) ex_settings)
       = Some (ex_config\<lparr>networks := (networks ex_config)
            (''Rizon'' \<mapsto> (new_network ''Rizon'')\<lparr>port := Some 6667\<rparr>)\<rparr>)"
  by (simp add: ex_settings_def ex_config_def updateNetwork_def)

subsection \<open>Fetching a page of the download history\<close>

text \<open>
  C10. \<open>fetchDownloadHistory\<close> always returns and never changes the selected download
  ids (nor the selected search ids). A response in the paginated shape replaces the
  loaded items, the total and the number of pages; one in the older shape replaces the
  items and the total and sets the number of pages to 1. So after a page change the
  selection can hold ids that are no longer loaded: with \<open>a\<close> selected on page 1, going
  to page 2 loads the item \<open>b\<close> alone and \<open>a\<close> is still selected.
\<close>

theorem fetchDownloadHistory_keeps_selection:
  "(\<exists>s'. fetchDownloadHistory net s = Returns s'
        \<and> selectedDownloads s' = selectedDownloads s
        \<and> selectedSearches s' = selectedSearches s)
   \<and> (\<forall>st data its.
         net (get_request (history_url (downloadPage s))) = Response st (Some data)
         \<and> items data = Some its \<longrightarrow>
           downloads (state_of (fetchDownloadHistory net s)) = its
           \<and> downloadTotal (state_of (fetchDownloadHistory net s))
               = number_or (total data) (int (length its))
           \<and> downloadTotalPages (state_of (fetchDownloadHistory net s))
               = number_or (total_pages data) 1)
   \<and> (\<forall>st data h.
         net (get_request (history_url (downloadPage s))) = Response st (Some data)
         \<and> items data = None \<and> history data = Some h \<longrightarrow>
           downloads (state_of (fetchDownloadHistory net s)) = h
           \<and> downloadTotal (state_of (fetchDownloadHistory net s))
               = number_or (count data) (int (length h))
           \<and> downloadTotalPages (state_of (fetchDownloadHistory net s)) = 1)
   \<and> ''a'' \<in> set (selectedDownloads (state_of (fetchDownloadHistory ex_net_page2 (nextDownloadPage ex_history))))
   \<and> ''a'' \<notin> dh_id ` set (downloads (state_of (fetchDownloadHistory ex_net_page2 (nextDownloadPage ex_history))))"
proof (intro conjI allI impI)
  show "\<exists>s'. fetchDownloadHistory net s = Returns s'
        \<and> selectedDownloads s' = selectedDownloads s
        \<and> selectedSearches s' = selectedSearches s"
    by (simp add: fetchDownloadHistory_def handler_defs Let_def console_error_def
        split: fetch_result.splits option.splits)
next
  fix st data its
  assume a: "net (get_request (history_url (downloadPage s))) = Response st (Some data)
         \<and> items data = Some its"
  then show "downloads (state_of (fetchDownloadHistory net s)) = its"
    by (simp add: fetchDownloadHistory_def handler_defs Let_def)
  from a show "downloadTotal (state_of (fetchDownloadHistory net s))
               = number_or (total data) (int (length its))"
    by (simp add: fetchDownloadHistory_def handler_defs Let_def)
  from a show "downloadTotalPages (state_of (fetchDownloadHistory net s))
               = number_or (total_pages data) 1"
    by (simp add: fetchDownloadHistory_def handler_defs Let_def)
next
  fix st data h
  assume a: "net (get_request (history_url (downloadPage s))) = Response st (Some data)
         \<and> items data = None \<and> history data = Some h"
  then show "downloads (state_of (fetchDownloadHistory net s)) = h"
    by (simp add: fetchDownloadHistory_def handler_defs Let_def)
  from a show "downloadTotal (state_of (fetchDownloadHistory net s))
               = number_or (count data) (int (length h))"
    by (simp add: fetchDownloadHistory_def handler_defs Let_def)
  from a show "downloadTotalPages (state_of (fetchDownloadHistory net s)) = 1"
    by (simp add: fetchDownloadHistory_def handler_defs Let_def)
next
  show "''a'' \<in> set (selectedDownloads (state_of (fetchDownloadHistory ex_net_page2 (nextDownloadPage ex_history))))"
    by (simp add: fetchDownloadHistory_def handler_defs Let_def ex_net_page2_def nextDownloadPage_def ex_history_def)
  show "''a'' \<notin> dh_id ` set (downloads (state_of (fetchDownloadHistory ex_net_page2 (nextDownloadPage ex_history))))"
    by (simp add: fetchDownloadHistory_def handler_defs Let_def ex_net_page2_def nextDownloadPage_def ex_history_def ex_download_def)
qed

theorem fetchDownloadHistory_keeps_selection_witness:
  "ex_net_page2 (get_request (history_url (downloadPage (nextDownloadPage ex_history))))
      = Response 200 (Some \<lparr>items = Some [ex_download ''b''], total_pages = Some 2, total = Some 2,
                             history = None, count = None\<rparr>)
   \<and> downloads (state_of (fetchDownloadHistory ex_net_page2 (nextDownloadPage ex_history)))
      = [ex_download ''b'']
   \<and> downloadTotal (state_of (fetchDownloadHistory ex_net_page2 (nextDownloadPage ex_history))) = 2
   \<and> downloadTotalPages (state_of (fetchDownloadHistory ex_net_page2 (nextDownloadPage ex_history))) = 2
   \<and> selectedDownloads (state_of (fetchDownloadHistory ex_net_page2 (nextDownloadPage ex_history)))
      = [''a'']"
  using fetchDownloadHistory_keeps_selection [of ex_net_page2 "nextDownloadPage ex_history"]
  by (auto simp: ex_net_page2_def state_of_def number_or_def nextDownloadPage_def ex_history_def)

subsection \<open>Expanding a row of the search history\<close>

text \<open>
  C3, evaluated on the code. A row whose \<open>results_json\<close> is missing or empty renders no
  nested table and raises nothing. A row whose \<open>results_json\<close> is a non-empty text that
  \<open>JSON.parse\<close> rejects raises a \<open>SyntaxError\<close> when it is rendered expanded, and with it
  the rendering of the whole table: with the snapshot \<open>{\<close> stored for search 1, the click
  that expands search 1 makes the table raise.
\<close>

theorem render_expanded_malformed:
  "(results_json item = None \<or> results_json item = Some [] \<longrightarrow>
      render_expanded JSON_parse e item = Inr None)
   \<and> (results_json item = Some j \<and> j \<noteq> [] \<and> JSON_parse j = None \<longrightarrow>
      render_expanded JSON_parse (Some (sh_id item)) item = Inl SyntaxError)
   \<and> (JSON_parse ''{'' = None \<longrightarrow>
      render_searches JSON_parse (toggleExpanded 1 ex_history) = Inl SyntaxError)"
  by (auto simp: render_expanded_def render_searches_def toggleExpanded_def ex_history_def
      ex_search_def bind_exn_def)

theorem render_expanded_malformed_witness:
  "ex_parse ''{'' = None
   \<and> render_searches ex_parse (toggleExpanded 1 ex_history) = Inl SyntaxError
   \<and> render_searches ex_parse (toggleExpanded 2 ex_history) = Inr [None, None]
   \<and> render_searches ex_parse ex_history = Inr [None, None]"
  using render_expanded_malformed [of "ex_search 1 (Some ''{'')" ex_parse "Some 1" "''{''"]
  by (simp add: render_expanded_def render_searches_def toggleExpanded_def ex_history_def
      ex_search_def bind_exn_def ex_parse_def)

end
